theory Spec2Isabelle
  imports
    Main
    "HOL-Library.Sublist"
    "HOL-Library.Char_ord"
    "HOL-Library.List_Lexorder"
    "HOL-Library.Product_Lexorder"
    "HOL-Library.Multiset"
    "HOL-Library.AList"
begin

section \<open>Python values, exceptions and string helpers\<close>

text \<open>
  The exceptions that the controller can meet.  The first four are the classes named by the
  handlers of \<^verbatim>\<open>regenerate_config_f5\<close>; the others are the built-in exceptions that the
  modelled code can raise itself, and \<open>OtherException\<close> carries the message of a plain
  \<^verbatim>\<open>raise Exception(...)\<close>.  \<open>NotModelled\<close> is not a Python exception: it marks the few
  inputs on which the embedding does not follow the source (the \<^verbatim>\<open>repr\<close> of a list or a
  dictionary inside a formatted string).
\<close>

datatype exn =
    ConnectionError
  | F5SDKError
  | BigIPInvalidURL
  | IControlUnexpectedHTTPError
  | KeyError
  | IndexError
  | ValueError
  | AttributeError
  | TypeError
  | OtherException string
  | NotModelled

text \<open>
  Values stored in the dictionaries the controller passes around.  A dictionary is an
  association list with distinct keys; the order of the keys stands for the (unspecified)
  iteration order of the Python dictionary.
\<close>

datatype pyval =
    PNone
  | PBool bool
  | PInt int
  | PStr string
  | PList "pyval list"
  | PDict "(string \<times> pyval) list"

type_synonym pydict = "(string \<times> pyval) list"

definition dict_get :: "('k \<times> 'v) list \<Rightarrow> 'k \<Rightarrow> exn + 'v" where
  "dict_get d k = (case map_of d k of None \<Rightarrow> Inl KeyError | Some v \<Rightarrow> Inr v)"

definition dict_has :: "('k \<times> 'v) list \<Rightarrow> 'k \<Rightarrow> bool" where
  "dict_has d k = (k \<in> set (map fst d))"

definition dict_keys :: "('k \<times> 'v) list \<Rightarrow> 'k list" where
  "dict_keys d = map fst d"

definition backslash :: char where
  "backslash = CHR 0x5C"

definition lower_char :: "char \<Rightarrow> char" where
  "lower_char c =
     (case map_of (zip ''ABCDEFGHIJKLMNOPQRSTUVWXYZ'' ''abcdefghijklmnopqrstuvwxyz'') c of
        None \<Rightarrow> c
      | Some l \<Rightarrow> l)"

definition lower :: "string \<Rightarrow> string" where
  "lower s = map lower_char s"

text \<open>\<^verbatim>\<open>s.split(sep)\<close> for a one-character separator: never empty, one more part than separators.\<close>

fun split_on :: "char \<Rightarrow> string \<Rightarrow> string list" where
  "split_on c [] = [[]]"
| "split_on c (x # xs) =
     (if x = c then [] # split_on c xs
      else (case split_on c xs of
              [] \<Rightarrow> [[x]]
            | w # ws \<Rightarrow> (x # w) # ws))"

definition lstrip_char :: "char \<Rightarrow> string \<Rightarrow> string" where
  "lstrip_char c s = dropWhile (\<lambda>x. x = c) s"

definition digit_char :: "nat \<Rightarrow> char" where
  "digit_char d = ''0123456789'' ! d"

function string_of_nat :: "nat \<Rightarrow> string" where
  "string_of_nat n =
     (if n < 10 then [digit_char n] else string_of_nat (n div 10) @ [digit_char (n mod 10)])"
  by pat_completeness auto
termination
  by (relation "measure (\<lambda>n. n)") auto

definition string_of_int :: "int \<Rightarrow> string" where
  "string_of_int i = (if i < 0 then CHR ''-'' # string_of_nat (nat (- i)) else string_of_nat (nat i))"

text \<open>\<^verbatim>\<open>str(x)\<close> and truthiness of an attribute that is a string or \<^verbatim>\<open>None\<close>.\<close>

definition py_str :: "string option \<Rightarrow> string" where
  "py_str x = (case x of None \<Rightarrow> ''None'' | Some s \<Rightarrow> s)"

definition truthy :: "string option \<Rightarrow> bool" where
  "truthy x = (case x of None \<Rightarrow> False | Some s \<Rightarrow> s \<noteq> [])"

text \<open>The \<^verbatim>\<open>%s\<close> conversion of a value, and a value read as a number (a \<^verbatim>\<open>bool\<close> is one).\<close>

fun format_s :: "pyval \<Rightarrow> exn + string" where
  "format_s PNone = Inr ''None''"
| "format_s (PBool b) = Inr (if b then ''True'' else ''False'')"
| "format_s (PInt i) = Inr (string_of_int i)"
| "format_s (PStr s) = Inr s"
| "format_s (PList xs) = Inl NotModelled"
| "format_s (PDict d) = Inl NotModelled"

fun as_int :: "pyval \<Rightarrow> int option" where
  "as_int (PInt i) = Some i"
| "as_int (PBool b) = Some (if b then 1 else 0)"
| "as_int PNone = None"
| "as_int (PStr s) = None"
| "as_int (PList xs) = None"
| "as_int (PDict d) = None"

fun rejects_times :: "pyval \<Rightarrow> bool" where
  "rejects_times PNone = True"
| "rejects_times (PDict d) = True"
| "rejects_times (PBool b) = False"
| "rejects_times (PInt i) = False"
| "rejects_times (PStr s) = False"
| "rejects_times (PList xs) = False"

section \<open>Module-level helpers of \<^verbatim>\<open>_f5.py\<close>\<close>

text \<open>
  \<^verbatim>\<open>healthcheck_timeout_calculate(data)\<close>.  Python integers are unbounded, hence \<open>int\<close>.
  The operands are evaluated from left to right: a missing key raises \<open>KeyError\<close>; the
  subtraction raises \<open>TypeError\<close> unless its operand is a number; the product with \<open>None\<close>
  or a dictionary raises \<open>TypeError\<close>, while the product with a string or a list is a
  repetition, on which one of the additions raises \<open>TypeError\<close>.  Floats are not modelled.
\<close>

definition healthcheck_timeout_calculate :: "pydict \<Rightarrow> exn + int" where
  "healthcheck_timeout_calculate data =
     (case dict_get data ''maxConsecutiveFailures'' of
        Inl e \<Rightarrow> Inl e
      | Inr mv \<Rightarrow>
          (case as_int mv of
             None \<Rightarrow> Inl TypeError
           | Some m \<Rightarrow>
               (case dict_get data ''intervalSeconds'' of
                  Inl e \<Rightarrow> Inl e
                | Inr iv \<Rightarrow>
                    if rejects_times iv then Inl TypeError
                    else
                      (case dict_get data ''timeoutSeconds'' of
                         Inl e \<Rightarrow> Inl e
                       | Inr ts \<Rightarrow>
                           (case (as_int iv, as_int ts) of
                              (Some i, Some t) \<Rightarrow> Inr (((m - 1) * i) + t + 1)
                            | _ \<Rightarrow> Inl TypeError)))))"

text \<open>\<^verbatim>\<open>get_protocol(protocol)\<close>; the argument is \<^verbatim>\<open>str(protocol)\<close>.\<close>

definition get_protocol :: "string \<Rightarrow> string option" where
  "get_protocol protocol =
     (if lower protocol = ''tcp'' then Some ''tcp''
      else if lower protocol = ''http'' then Some ''tcp''
      else if lower protocol = ''udp'' then Some ''udp''
      else None)"

text \<open>
  \<^verbatim>\<open>has_partition(partitions, app_partition)\<close>.  The application's partition is a string or
  \<^verbatim>\<open>None\<close>; \<^verbatim>\<open>not app_partition\<close> holds for \<^verbatim>\<open>None\<close> and for the empty string.  The
  \<^verbatim>\<open>raise\<close> of the source is kept as a branch.
\<close>

definition has_partition :: "string list \<Rightarrow> string option \<Rightarrow> exn + bool" where
  "has_partition partitions app_partition =
     (if \<not> truthy app_partition then Inr False
      else if ''*'' \<in> set partitions then Inr True
      else if length partitions = 0 \<and> \<not> truthy app_partition
        then Inl (OtherException ''No partitions specified'')
      else if py_str app_partition \<in> set partitions then Inr True
      else Inr False)"

text \<open>
  \<^verbatim>\<open>CloudBigIP.healthcheck_sendstring(data)\<close>.  The Python literals are written with
  \<^verbatim>\<open>\\r\\n\<close>, so the string holds a backslash followed by a letter, four times.
\<close>

definition crlf_escaped :: string where
  "crlf_escaped = [backslash, CHR ''r'', backslash, CHR ''n'', backslash, CHR ''r'', backslash, CHR ''n'']"

definition healthcheck_sendstring :: "pydict \<Rightarrow> exn + pyval" where
  "healthcheck_sendstring data =
     (case dict_get data ''protocol'' of
        Inl e \<Rightarrow> Inl e
      | Inr proto \<Rightarrow>
          if proto = PStr ''http'' then
            (if dict_has data ''path'' then
               (case dict_get data ''path'' of
                  Inl e \<Rightarrow> Inl e
                | Inr v \<Rightarrow>
                    (case format_s v of
                       Inl e \<Rightarrow> Inl e
                     | Inr p \<Rightarrow> Inr (PStr (''GET '' @ p @ '' HTTP/1.0'' @ crlf_escaped))))
             else Inr (PStr (''GET / HTTP/1.0'' @ crlf_escaped)))
          else Inr PNone)"

text \<open>
  Modelled from the spec: \<^verbatim>\<open>list_diff\<close> and \<^verbatim>\<open>list_intersect\<close> are imported from the
  module \<^verbatim>\<open>common\<close>, which is not among the sources.  The specification says of them:
  difference and intersection are computed by membership test, not by position, and the
  output order follows the first operand's order.
\<close>

definition list_diff :: "'a list \<Rightarrow> 'a list \<Rightarrow> 'a list" where
  "list_diff list1 list2 = filter (\<lambda>x. x \<notin> set list2) list1"

definition list_intersect :: "'a list \<Rightarrow> 'a list \<Rightarrow> 'a list" where
  "list_intersect list1 list2 = filter (\<lambda>x. x \<in> set list2) list1"

section \<open>The Marathon configuration builder\<close>

text \<open>Sequencing of computations that can raise.\<close>

definition bind_r :: "exn + 'a \<Rightarrow> ('a \<Rightarrow> exn + 'b) \<Rightarrow> exn + 'b" where
  "bind_r m f = (case m of Inl e \<Rightarrow> Inl e | Inr a \<Rightarrow> f a)"

text \<open>
  A Marathon application object, by the attributes the builder reads.  \<open>mode\<close> holds
  \<^verbatim>\<open>str(app.mode)\<close>.  An attribute that may be \<^verbatim>\<open>None\<close> is an option.
\<close>

record backend_server =
  host :: string
  port :: int

record marathon_app =
  appId :: string
  servicePort :: int
  partition_label :: "string option"
  bindAddr :: "string option"
  iapp :: "string option"
  iappTableName :: pyval
  iappVariables :: "(string \<times> pyval) list"
  iappOptions :: pydict
  mode :: string
  balance :: string
  healthCheck :: "pydict option"
  profile :: "string option"
  backends :: "backend_server list"

text \<open>The entry of one service in the configuration dictionary built for the BIG-IP.\<close>

record iapp_data =
  template :: string
  tableName :: pyval
  variables :: "(string \<times> pyval) list"
  options :: pydict

record f5_service =
  svc_name :: string
  svc_partition :: string
  svc_iapp :: "iapp_data option"
  svc_virtual :: pydict
  svc_pool :: pydict
  svc_nodes :: "(string \<times> pydict) list"
  svc_health :: "pydict list"
  svc_virtual_address :: "string option"

type_synonym f5_config = "(string \<times> f5_service) list"

text \<open>
  The controller object: \<^verbatim>\<open>self._cloud\<close>, \<^verbatim>\<open>self._partitions\<close>, and the two library
  functions the builder calls that are not part of the sources: \<^verbatim>\<open>common.resolve_ip\<close>
  (\<open>None\<close> when the host name does not resolve) and \<^verbatim>\<open>ipaddress.ip_address\<close> (here only
  whether it accepts the value or raises \<open>ValueError\<close>).
\<close>

record cloud_bigip =
  cloud :: string
  partitions :: "string list"
  resolve_ip :: "string \<Rightarrow> string option"
  ip_address_accepts :: "string option \<Rightarrow> bool"

definition lbmethods :: "string list" where
  "lbmethods =
     [''dynamic-ratio-member'', ''least-connections-member'', ''observed-node'',
      ''ratio-least-connections-node'', ''round-robin'', ''dynamic-ratio-node'',
      ''least-connections-node'', ''predictive-member'', ''ratio-member'',
      ''weighted-least-connections-member'', ''fastest-app-response'', ''least-sessions'',
      ''predictive-node'', ''ratio-node'', ''weighted-least-connections-node'',
      ''fastest-node'', ''observed-member'', ''ratio-least-connections-member'',
      ''ratio-session'']"

text \<open>\<^verbatim>\<open>CloudBigIP.is_label_data_valid(app)\<close>; the logging is left out.\<close>

definition is_label_data_valid :: "cloud_bigip \<Rightarrow> marathon_app \<Rightarrow> bool" where
  "is_label_data_valid self app =
     (let is_valid = True;
          is_valid = (if get_protocol (mode app) = None then False else is_valid);
          is_valid = (if servicePort app < 1 \<or> servicePort app > 65535 then False else is_valid);
          is_valid = (if \<not> ip_address_accepts self (bindAddr app) then False else is_valid);
          is_valid = (if balance app \<notin> set lbmethods then False else is_valid)
      in is_valid)"

definition member_state :: pydict where
  "member_state = [(''state'', PStr ''user-up''), (''session'', PStr ''user-enabled'')]"

definition frontend_name_of :: "marathon_app \<Rightarrow> string" where
  "frontend_name_of app =
     lstrip_char CHR ''/'' (appId app) @ ''_''
       @ (if truthy (iapp app) then ''iapp'' else py_str (bindAddr app)) @ ''_''
       @ string_of_int (servicePort app)"

text \<open>
  The block under \<^verbatim>\<open>if app.healthCheck:\<close>: the dictionary gets the monitor's name, its
  protocol in lower case, and the fields \<open>interval\<close>, \<open>timeout\<close> and \<open>send\<close>.
\<close>

definition marathon_healthcheck :: "string \<Rightarrow> pydict \<Rightarrow> exn + pydict" where
  "marathon_healthcheck frontend_name hc =
     (let hc1 = AList.update ''name'' (PStr frontend_name) hc in
      bind_r (if dict_has hc1 ''protocol'' then
                (case dict_get hc1 ''protocol'' of
                   Inr (PStr p) \<Rightarrow> Inr (AList.update ''protocol'' (PStr (lower p)) hc1)
                 | Inr _ \<Rightarrow> Inl AttributeError
                 | Inl e \<Rightarrow> Inl e)
              else Inr hc1) (\<lambda>hc2.
      bind_r (dict_get hc2 ''intervalSeconds'') (\<lambda>interval.
      bind_r (healthcheck_timeout_calculate hc2) (\<lambda>timeout.
      bind_r (healthcheck_sendstring hc2) (\<lambda>send.
        Inr (AList.update ''send'' send
              (AList.update ''timeout'' (PInt timeout)
                (AList.update ''interval'' interval hc2))))))))"

definition ssl_profiles :: "string option \<Rightarrow> pyval list" where
  "ssl_profiles p =
     (if truthy p then
        (case split_on CHR ''/'' (py_str p) of
           [a, b] \<Rightarrow> [PDict [(''partition'', PStr a), (''name'', PStr b)]]
         | _ \<Rightarrow> [])
      else [])"

definition mode_profiles :: "string \<Rightarrow> pyval list" where
  "mode_profiles m =
     (if lower m = ''http'' then [PDict [(''partition'', PStr ''Common''), (''name'', PStr ''http'')]]
      else if get_protocol m = Some ''tcp''
        then [PDict [(''partition'', PStr ''Common''), (''name'', PStr ''tcp'')]]
      else [])"

definition opt_str :: "string option \<Rightarrow> pyval" where
  "opt_str x = (case x of None \<Rightarrow> PNone | Some s \<Rightarrow> PStr s)"

text \<open>The loop over the sorted backends: unresolved hosts are dropped.\<close>

fun backend_nodes :: "cloud_bigip \<Rightarrow> backend_server list \<Rightarrow> (string \<times> pydict) list
    \<Rightarrow> (string \<times> pydict) list" where
  "backend_nodes self [] nodes = nodes"
| "backend_nodes self (b # bs) nodes =
     (case resolve_ip self (host b) of
        Some ipv4 \<Rightarrow>
          backend_nodes self bs
            (AList.update (ipv4 @ '':'' @ string_of_int (port b)) member_state nodes)
      | None \<Rightarrow> backend_nodes self bs nodes)"

text \<open>\<^verbatim>\<open>if app.healthCheck:\<close> holds for a dictionary that is not empty.\<close>

definition has_healthCheck :: "marathon_app \<Rightarrow> bool" where
  "has_healthCheck app = (case healthCheck app of None \<Rightarrow> False | Some hc \<Rightarrow> hc \<noteq> [])"

definition the_healthCheck :: "marathon_app \<Rightarrow> pydict" where
  "the_healthCheck app = (case healthCheck app of None \<Rightarrow> [] | Some hc \<Rightarrow> hc)"

text \<open>
  The body of the loop of \<^verbatim>\<open>_create_config_marathon\<close> for one application: \<open>Inr None\<close>
  is a \<^verbatim>\<open>continue\<close> (the application is skipped), \<open>Inr (Some s)\<close> the entry that
  \<^verbatim>\<open>f5.update({frontend_name: f5_service})\<close> stores, \<open>Inl e\<close> an exception.
\<close>

definition marathon_service :: "cloud_bigip \<Rightarrow> marathon_app \<Rightarrow> exn + f5_service option" where
  "marathon_service self app =
     bind_r (has_partition (partitions self) (partition_label app)) (\<lambda>managed.
       if \<not> managed then Inr None
       else if \<not> truthy (bindAddr app) \<and> \<not> truthy (iapp app) then Inr None
       else if \<not> truthy (iapp app) \<and> \<not> is_label_data_valid self app then Inr None
       else
         (let frontend_name = frontend_name_of app in
          bind_r (if has_healthCheck app then
                    bind_r (marathon_healthcheck frontend_name (the_healthCheck app))
                      (\<lambda>h. Inr [h])
                  else Inr []) (\<lambda>health.
          bind_r (if has_healthCheck app then
                    (case health of
                       [] \<Rightarrow> Inl IndexError
                     | h # _ \<Rightarrow>
                         bind_r (dict_get h ''name'') (\<lambda>n.
                         bind_r (format_s n) (\<lambda>s.
                           Inr (PStr (''/'' @ py_str (partition_label app) @ ''/'' @ s)))))
                  else Inr PNone) (\<lambda>monitor.
            Inr (Some \<lparr>
              svc_name = frontend_name,
              svc_partition = py_str (partition_label app),
              svc_iapp = (if truthy (iapp app) then
                            Some \<lparr> template = py_str (iapp app),
                                   tableName = iappTableName app,
                                   variables = iappVariables app,
                                   options = iappOptions app \<rparr>
                          else None),
              svc_virtual =
                [(''enabled'', PBool True),
                 (''disabled'', PBool False),
                 (''ipProtocol'', opt_str (get_protocol (mode app))),
                 (''destination'',
                    PStr (''/'' @ py_str (partition_label app) @ ''/'' @ py_str (bindAddr app)
                          @ '':'' @ string_of_int (servicePort app))),
                 (''pool'', PStr (''/'' @ py_str (partition_label app) @ ''/'' @ frontend_name)),
                 (''sourceAddressTranslation'', PDict [(''type'', PStr ''automap'')]),
                 (''profiles'', PList (ssl_profiles (profile app) @ mode_profiles (mode app)))],
              svc_pool =
                [(''monitor'', monitor), (''loadBalancingMode'', PStr (balance app))],
              svc_nodes =
                backend_nodes self (sort_key (\<lambda>b. (host b, port b)) (backends app)) [],
              svc_health = health,
              svc_virtual_address = bindAddr app \<rparr>)))))"

fun marathon_loop :: "cloud_bigip \<Rightarrow> marathon_app list \<Rightarrow> f5_config \<Rightarrow> exn + f5_config" where
  "marathon_loop self [] f5 = Inr f5"
| "marathon_loop self (app # apps) f5 =
     (case marathon_service self app of
        Inl e \<Rightarrow> Inl e
      | Inr None \<Rightarrow> marathon_loop self apps f5
      | Inr (Some s) \<Rightarrow> marathon_loop self apps (AList.update (svc_name s) s f5))"

text \<open>\<^verbatim>\<open>CloudBigIP._create_config_marathon(apps)\<close>.\<close>

definition create_config_marathon :: "cloud_bigip \<Rightarrow> marathon_app list \<Rightarrow> exn + f5_config" where
  "create_config_marathon self apps =
     marathon_loop self (sort_key (\<lambda>app. (appId app, servicePort app)) apps) []"

definition healthcheck_wellformed :: "pydict \<Rightarrow> bool" where
  "healthcheck_wellformed hc =
     ((case map_of hc ''protocol'' of Some (PStr p) \<Rightarrow> True | _ \<Rightarrow> False) \<and>
      (case map_of hc ''maxConsecutiveFailures'' of Some (PInt m) \<Rightarrow> True | _ \<Rightarrow> False) \<and>
      (case map_of hc ''intervalSeconds'' of Some (PInt i) \<Rightarrow> True | _ \<Rightarrow> False) \<and>
      (case map_of hc ''timeoutSeconds'' of Some (PInt t) \<Rightarrow> True | _ \<Rightarrow> False) \<and>
      (case map_of hc ''path'' of None \<Rightarrow> True | Some (PStr p) \<Rightarrow> True | _ \<Rightarrow> False))"

definition otherwise_valid :: "cloud_bigip \<Rightarrow> marathon_app \<Rightarrow> bool" where
  "otherwise_valid self app =
     (truthy (partition_label app) \<and>
      (truthy (bindAddr app) \<or> truthy (iapp app)) \<and>
      (truthy (iapp app) \<or> is_label_data_valid self app) \<and>
      (has_healthCheck app \<longrightarrow> healthcheck_wellformed (the_healthCheck app)))"

definition example_controller :: "string list \<Rightarrow> cloud_bigip" where
  "example_controller ps =
     \<lparr> cloud = ''marathon'', partitions = ps, resolve_ip = Some,
       ip_address_accepts = (\<lambda>a. a \<noteq> None) \<rparr>"

definition example_app :: "string \<Rightarrow> string option \<Rightarrow> marathon_app" where
  "example_app name p =
     \<lparr> appId = name, servicePort = 80, partition_label = p,
       bindAddr = Some ''10.0.0.1'', iapp = None, iappTableName = PNone, iappVariables = [],
       iappOptions = [], mode = ''http'', balance = ''round-robin'', healthCheck = None,
       profile = None,
       backends = [\<lparr> host = ''10.1.0.1'', port = 8080 \<rparr>, \<lparr> host = ''10.1.0.2'', port = 8080 \<rparr>] \<rparr>"

section \<open>The BIG-IP seen through the F5 SDK\<close>

text \<open>
  Comparison of two values with \<^verbatim>\<open>==\<close>: a \<^verbatim>\<open>bool\<close> is a number, and dictionaries are equal
  when they hold the same keys with equal values, in whatever order.  \<open>canon\<close> brings a value
  into a form on which this is plain equality (dictionaries with their keys sorted).
\<close>

fun canon :: "pyval \<Rightarrow> pyval" where
  "canon PNone = PNone"
| "canon (PBool b) = PInt (if b then 1 else 0)"
| "canon (PInt i) = PInt i"
| "canon (PStr s) = PStr s"
| "canon (PList xs) = PList (map canon xs)"
| "canon (PDict d) = PDict (sort_key fst (map (map_prod id canon) d))"

definition py_eq :: "pyval \<Rightarrow> pyval \<Rightarrow> bool" where
  "py_eq a b = (canon a = canon b)"

text \<open>\<^verbatim>\<open>x in v\<close> for a string \<open>x\<close>: substring, element or key; other values are not iterable.\<close>

fun py_contains :: "pyval \<Rightarrow> string \<Rightarrow> exn + bool" where
  "py_contains (PStr s) x = Inr (sublist x s)"
| "py_contains (PList xs) x = Inr (list_ex (\<lambda>v. py_eq v (PStr x)) xs)"
| "py_contains (PDict d) x = Inr (dict_has d x)"
| "py_contains PNone x = Inl TypeError"
| "py_contains (PBool b) x = Inl TypeError"
| "py_contains (PInt i) x = Inl TypeError"

definition is_space :: "char \<Rightarrow> bool" where
  "is_space c = (c \<in> set [CHR '' '', CHR 0x09, CHR 0x0A, CHR 0x0B, CHR 0x0C, CHR 0x0D])"

definition strip :: "string \<Rightarrow> string" where
  "strip s = rev (dropWhile is_space (rev (dropWhile is_space s)))"

text \<open>
  A resource object handed out by the SDK: its name, its partition and the other entries
  of its \<^verbatim>\<open>__dict__\<close>.  Reading an attribute that the object does not have raises
  \<open>AttributeError\<close>.
\<close>

record sdk_obj =
  o_name :: string
  o_partition :: string
  o_attrs :: pydict

definition obj_dict :: "sdk_obj \<Rightarrow> pydict" where
  "obj_dict obj = (''name'', PStr (o_name obj)) # (''partition'', PStr (o_partition obj)) # o_attrs obj"

definition attr :: "sdk_obj \<Rightarrow> string \<Rightarrow> exn + pyval" where
  "attr obj k = (case map_of (obj_dict obj) k of None \<Rightarrow> Inl AttributeError | Some v \<Rightarrow> Inr v)"

text \<open>
  The calls of the SDK that change the BIG-IP, with the arguments the controller passes.
  A call on an object (\<^verbatim>\<open>delete\<close>, \<^verbatim>\<open>modify\<close>, \<^verbatim>\<open>update\<close>) carries the object it is made on.
\<close>

datatype op =
    ServiceCreate string string string "pyval list" "pyval list" pydict
  | ServiceUpdate sdk_obj string string "pyval list" "pyval list" pydict
  | ServiceDelete sdk_obj
  | VirtualCreate string string pydict
  | VirtualDelete sdk_obj
  | VirtualModify sdk_obj pydict
  | VirtualAddressCreate "string option" string
  | VirtualAddressModify sdk_obj pydict
  | PoolCreate string string pydict
  | PoolDelete sdk_obj
  | PoolModify sdk_obj pydict
  | MonitorCreate string string pydict
  | MonitorDelete sdk_obj
  | MonitorModify sdk_obj pydict
  | MemberCreate sdk_obj string string pydict
  | MemberDelete sdk_obj
  | MemberModify sdk_obj pydict
  | NodeModify sdk_obj pydict
  | NodeDelete sdk_obj

text \<open>
  The SDK is not part of the sources: it is a parameter, over a state \<open>'r\<close> of the BIG-IP
  about which nothing is assumed.  A read (\<^verbatim>\<open>get_collection\<close>, \<^verbatim>\<open>exists\<close>, \<^verbatim>\<open>load\<close>) returns
  a value or raises; \<open>perform\<close> makes a changing call, which returns or raises and leaves a
  new state.  \<open>load\<close> and \<open>exists\<close> take \<^verbatim>\<open>name\<close> and then \<^verbatim>\<open>partition\<close>.
\<close>

record 'r sdk =
  folders_get_collection :: "'r \<Rightarrow> exn + sdk_obj list"
  services_get_collection :: "'r \<Rightarrow> exn + sdk_obj list"
  service_load :: "string \<Rightarrow> string \<Rightarrow> 'r \<Rightarrow> exn + sdk_obj"
  pools_get_collection :: "'r \<Rightarrow> exn + sdk_obj list"
  members_get_collection :: "sdk_obj \<Rightarrow> 'r \<Rightarrow> exn + sdk_obj list"
  member_load :: "sdk_obj \<Rightarrow> string \<Rightarrow> string \<Rightarrow> 'r \<Rightarrow> exn + sdk_obj"
  nodes_get_collection :: "'r \<Rightarrow> exn + sdk_obj list"
  node_exists :: "string \<Rightarrow> string \<Rightarrow> 'r \<Rightarrow> exn + bool"
  node_load :: "string \<Rightarrow> string \<Rightarrow> 'r \<Rightarrow> exn + sdk_obj"
  virtuals_get_collection :: "'r \<Rightarrow> exn + sdk_obj list"
  virtual_load :: "string \<Rightarrow> string \<Rightarrow> 'r \<Rightarrow> exn + sdk_obj"
  profiles_get_collection :: "sdk_obj \<Rightarrow> 'r \<Rightarrow> exn + sdk_obj list"
  virtual_address_exists :: "string option \<Rightarrow> string \<Rightarrow> 'r \<Rightarrow> exn + bool"
  virtual_address_load :: "string option \<Rightarrow> string \<Rightarrow> 'r \<Rightarrow> exn + sdk_obj"
  https_get_collection :: "'r \<Rightarrow> exn + sdk_obj list"
  tcps_get_collection :: "'r \<Rightarrow> exn + sdk_obj list"
  http_load :: "string \<Rightarrow> string \<Rightarrow> 'r \<Rightarrow> exn + sdk_obj"
  tcp_load :: "string \<Rightarrow> string \<Rightarrow> 'r \<Rightarrow> exn + sdk_obj"
  perform :: "op \<Rightarrow> 'r \<Rightarrow> (exn + unit) \<times> 'r"

text \<open>
  A method of the controller is a computation on the state of the BIG-IP and the list of the
  changing calls issued so far; it returns a value or raises, and leaves the state that
  was reached.
\<close>

type_synonym ('r, 'a) eng = "'r \<times> op list \<Rightarrow> (exn + 'a) \<times> ('r \<times> op list)"

definition ret :: "'a \<Rightarrow> ('r, 'a) eng" where
  "ret x = (\<lambda>s. (Inr x, s))"

definition throw :: "exn \<Rightarrow> ('r, 'a) eng" where
  "throw e = (\<lambda>s. (Inl e, s))"

definition and_then :: "('r, 'a) eng \<Rightarrow> ('a \<Rightarrow> ('r, 'b) eng) \<Rightarrow> ('r, 'b) eng" where
  "and_then m f = (\<lambda>s. case m s of (Inl e, s') \<Rightarrow> (Inl e, s') | (Inr a, s') \<Rightarrow> f a s')"

definition lift_r :: "exn + 'a \<Rightarrow> ('r, 'a) eng" where
  "lift_r v = (case v of Inl e \<Rightarrow> throw e | Inr a \<Rightarrow> ret a)"

definition query :: "('r \<Rightarrow> exn + 'a) \<Rightarrow> ('r, 'a) eng" where
  "query g = (\<lambda>s. (g (fst s), s))"

definition issue :: "'r sdk \<Rightarrow> op \<Rightarrow> ('r, unit) eng" where
  "issue bigip c = (\<lambda>s. case perform bigip c (fst s) of (res, r') \<Rightarrow> (res, (r', snd s @ [c])))"

fun for_each :: "'a list \<Rightarrow> ('a \<Rightarrow> ('r, 'b) eng) \<Rightarrow> ('r, unit) eng" where
  "for_each [] f = ret ()"
| "for_each (x # xs) f = and_then (f x) (\<lambda>_. for_each xs f)"

fun fold_each :: "'a list \<Rightarrow> ('a \<Rightarrow> 'b \<Rightarrow> ('r, 'b) eng) \<Rightarrow> 'b \<Rightarrow> ('r, 'b) eng" where
  "fold_each [] f acc = ret acc"
| "fold_each (x # xs) f acc = and_then (f x acc) (\<lambda>acc'. fold_each xs f acc')"

text \<open>
  \<^verbatim>\<open>f(a=..., **d)\<close>: a key of \<open>d\<close> that repeats a keyword given explicitly is a \<open>TypeError\<close>.
\<close>

definition kwargs :: "string list \<Rightarrow> pydict \<Rightarrow> exn + pydict" where
  "kwargs explicit d = (if list_ex (\<lambda>k. k \<in> set explicit) (map fst d) then Inl TypeError else Inr d)"

section \<open>The methods of \<^verbatim>\<open>CloudBigIP\<close> that talk to the BIG-IP\<close>

text \<open>
  In what follows \<open>part\<close> is the argument \<^verbatim>\<open>partition\<close> of the source and \<open>svc\<close> the entry of
  one service in the configuration dictionary (\<^verbatim>\<open>config\<close> or \<^verbatim>\<open>data\<close> in the source).
  Logging is left out.
\<close>

definition names_in :: "string \<Rightarrow> sdk_obj list \<Rightarrow> string list" where
  "names_in part objs = map o_name (filter (\<lambda>obj. o_partition obj = part) objs)"

text \<open>\<^verbatim>\<open>get_partitions(partitions)\<close>.\<close>

definition get_partitions :: "'r sdk \<Rightarrow> string list \<Rightarrow> ('r, string list) eng" where
  "get_partitions bigip ps =
     (if ''*'' \<in> set ps then
        and_then (query (folders_get_collection bigip)) (\<lambda>folders.
          ret (map o_name
                (filter (\<lambda>folder. \<not> o_name folder = ''Common'' \<and> \<not> o_name folder = ''/'' \<and>
                                   \<not> suffix ''.app'' (o_name folder)) folders)))
      else ret ps)"

subsection \<open>Application services (iApps)\<close>

definition get_iapp_list :: "'r sdk \<Rightarrow> string \<Rightarrow> ('r, string list) eng" where
  "get_iapp_list bigip part =
     and_then (query (services_get_collection bigip)) (\<lambda>iapps. ret (names_in part iapps))"

definition get_iapp :: "'r sdk \<Rightarrow> string \<Rightarrow> string \<Rightarrow> ('r, sdk_obj) eng" where
  "get_iapp bigip part iname = query (service_load bigip iname part)"

text \<open>\<open>svc['iapp']\<close>: a \<open>KeyError\<close> for a service without the key.\<close>

definition iapp_of :: "f5_service \<Rightarrow> exn + iapp_data" where
  "iapp_of svc = (case svc_iapp svc of None \<Rightarrow> Inl KeyError | Some a \<Rightarrow> Inr a)"

text \<open>One row of the table of an iApp: the first two parts of \<^verbatim>\<open>node.split(':')\<close>.\<close>

definition iapp_row :: "string \<Rightarrow> exn + pyval" where
  "iapp_row node =
     (case split_on CHR '':'' node of
        a # b # _ \<Rightarrow> Inr (PDict [(''row'', PList [PStr a, PStr b, PStr ''0''])])
      | _ \<Rightarrow> Inl IndexError)"

fun iapp_rows :: "string list \<Rightarrow> exn + pyval list" where
  "iapp_rows [] = Inr []"
| "iapp_rows (node # nodes) =
     bind_r (iapp_row node) (\<lambda>r. bind_r (iapp_rows nodes) (\<lambda>rs. Inr (r # rs)))"

text \<open>\<^verbatim>\<open>iapp_build_definition(config)\<close>: the pair of \<open>variables\<close> and \<open>tables\<close>.\<close>

definition iapp_build_definition :: "f5_service \<Rightarrow> exn + (pyval list \<times> pyval list)" where
  "iapp_build_definition svc =
     bind_r (iapp_of svc) (\<lambda>a.
       (let vars = map (\<lambda>(key, v). PDict [(''name'', PStr key), (''value'', v)]) (variables a) in
        bind_r (iapp_rows (dict_keys (svc_nodes svc))) (\<lambda>rows.
          Inr (vars,
               [PDict [(''columnNames'', PList [PStr ''addr'', PStr ''port'', PStr ''connection_limit'']),
                       (''name'', tableName a),
                       (''rows'', PList rows)]]))))"

definition iapp_create :: "'r sdk \<Rightarrow> string \<Rightarrow> string \<Rightarrow> f5_service \<Rightarrow> ('r, unit) eng" where
  "iapp_create bigip part iname svc =
     and_then (lift_r (iapp_of svc)) (\<lambda>a.
     and_then (lift_r (iapp_build_definition svc)) (\<lambda>iapp_def.
     and_then (lift_r (kwargs [''name'', ''template'', ''partition'', ''variables'', ''tables'']
                              (options a))) (\<lambda>opts.
       issue bigip (ServiceCreate iname (template a) part (fst iapp_def) (snd iapp_def) opts))))"

definition iapp_delete :: "'r sdk \<Rightarrow> string \<Rightarrow> string \<Rightarrow> ('r, unit) eng" where
  "iapp_delete bigip part iname =
     and_then (get_iapp bigip part iname) (\<lambda>a. issue bigip (ServiceDelete a))"

text \<open>
  \<^verbatim>\<open>iapp_update(partition, name, config)\<close>: the service is loaded, the definition is built
  from the configuration entry, and \<^verbatim>\<open>a.update(executeAction='definition', ...)\<close> is called.
  There is no comparison with the present state.
\<close>

definition iapp_update :: "'r sdk \<Rightarrow> string \<Rightarrow> string \<Rightarrow> f5_service \<Rightarrow> ('r, unit) eng" where
  "iapp_update bigip part iname svc =
     and_then (get_iapp bigip part iname) (\<lambda>a.
     and_then (lift_r (iapp_build_definition svc)) (\<lambda>iapp_def.
     and_then (lift_r (bind_r (iapp_of svc) (\<lambda>i.
                 kwargs [''executeAction'', ''name'', ''partition'', ''variables'', ''tables'']
                        (options i)))) (\<lambda>opts.
       issue bigip (ServiceUpdate a iname part (fst iapp_def) (snd iapp_def) opts))))"

subsection \<open>Pools and their members\<close>

text \<open>
  \<^verbatim>\<open>get_pool(partition, name)\<close> searches the collection of all pools for the name; the
  partition is not compared.  \<open>None\<close> when no pool has the name.
\<close>

definition get_pool :: "'r sdk \<Rightarrow> string \<Rightarrow> string \<Rightarrow> ('r, sdk_obj option) eng" where
  "get_pool bigip part pname =
     and_then (query (pools_get_collection bigip)) (\<lambda>pools.
       ret (find (\<lambda>p. o_name p = pname) pools))"

text \<open>An attribute or a method of \<^verbatim>\<open>None\<close> (or of a string) is an \<open>AttributeError\<close>.\<close>

definition not_none :: "'a option \<Rightarrow> ('r, 'a) eng" where
  "not_none x = (case x of None \<Rightarrow> throw AttributeError | Some v \<Rightarrow> ret v)"

definition get_pool_list :: "'r sdk \<Rightarrow> string \<Rightarrow> ('r, string list) eng" where
  "get_pool_list bigip part =
     and_then (query (pools_get_collection bigip)) (\<lambda>pools. ret (names_in part pools))"

definition pool_create :: "'r sdk \<Rightarrow> string \<Rightarrow> string \<Rightarrow> f5_service \<Rightarrow> ('r, unit) eng" where
  "pool_create bigip part pname svc =
     and_then (lift_r (kwargs [''partition'', ''name''] (svc_pool svc))) (\<lambda>kw.
       issue bigip (PoolCreate part pname kw))"

definition pool_delete :: "'r sdk \<Rightarrow> string \<Rightarrow> string \<Rightarrow> ('r, unit) eng" where
  "pool_delete bigip part pname =
     and_then (get_pool bigip part pname) (\<lambda>p.
     and_then (not_none p) (\<lambda>p. issue bigip (PoolDelete p)))"

text \<open>
  The generator \<^verbatim>\<open>genChange\<close> under \<^verbatim>\<open>all\<close>: the entries of the object are visited in
  order, and the first difference ends the iteration.
\<close>

fun genChange :: "pydict \<Rightarrow> pydict \<Rightarrow> exn + bool" where
  "genChange [] d = Inr True"
| "genChange ((key, val) # rest) d =
     (case map_of d key of
        None \<Rightarrow> genChange rest d
      | Some dv \<Rightarrow>
          (case val of
             PNone \<Rightarrow> if py_eq dv val then genChange rest d else Inr False
           | PStr s \<Rightarrow> if py_eq dv (PStr (strip s)) then genChange rest d else Inr False
           | _ \<Rightarrow> Inl AttributeError))"

definition pool_update :: "'r sdk \<Rightarrow> string \<Rightarrow> string \<Rightarrow> f5_service \<Rightarrow> ('r, bool) eng" where
  "pool_update bigip part pname svc =
     and_then (get_pool bigip part pname) (\<lambda>p.
     and_then (not_none p) (\<lambda>p.
     and_then (lift_r (genChange (obj_dict p) (svc_pool svc))) (\<lambda>no_change.
       if no_change then ret False
       else and_then (issue bigip (PoolModify p (svc_pool svc))) (\<lambda>_. ret True))))"

definition get_member :: "'r sdk \<Rightarrow> string \<Rightarrow> string \<Rightarrow> string \<Rightarrow> ('r, sdk_obj) eng" where
  "get_member bigip part pname mname =
     and_then (get_pool bigip part pname) (\<lambda>p.
     and_then (not_none p) (\<lambda>p. query (member_load bigip p mname part)))"

definition get_pool_member_list :: "'r sdk \<Rightarrow> string \<Rightarrow> string \<Rightarrow> ('r, string list) eng" where
  "get_pool_member_list bigip part pname =
     and_then (get_pool bigip part pname) (\<lambda>p.
     and_then (not_none p) (\<lambda>p.
     and_then (query (members_get_collection bigip p)) (\<lambda>members.
       ret (map o_name members))))"

definition member_create :: "'r sdk \<Rightarrow> string \<Rightarrow> string \<Rightarrow> string \<Rightarrow> pydict \<Rightarrow> ('r, unit) eng" where
  "member_create bigip part pname mname d =
     and_then (get_pool bigip part pname) (\<lambda>p.
     and_then (not_none p) (\<lambda>p.
     and_then (lift_r (kwargs [''name'', ''partition''] d)) (\<lambda>kw.
       issue bigip (MemberCreate p mname part kw))))"

definition member_delete :: "'r sdk \<Rightarrow> string \<Rightarrow> string \<Rightarrow> string \<Rightarrow> ('r, unit) eng" where
  "member_delete bigip part pname mname =
     and_then (get_member bigip part pname mname) (\<lambda>m. issue bigip (MemberDelete m))"

text \<open>
  The test shared by \<^verbatim>\<open>member_update\<close> and \<^verbatim>\<open>cleanup_nodes\<close>: the state is \<open>up\<close> or
  \<open>unchecked\<close>, and the session contains \<open>enabled\<close>.
\<close>

definition up_and_enabled :: "sdk_obj \<Rightarrow> exn + bool" where
  "up_and_enabled obj =
     bind_r (attr obj ''state'') (\<lambda>st.
       if py_eq st (PStr ''up'') \<or> py_eq st (PStr ''unchecked'') then
         bind_r (attr obj ''session'') (\<lambda>sess. py_contains sess ''enabled'')
       else Inr False)"

definition member_update :: "'r sdk \<Rightarrow> string \<Rightarrow> string \<Rightarrow> string \<Rightarrow> pydict \<Rightarrow> ('r, bool) eng" where
  "member_update bigip part pname mname d =
     and_then (get_member bigip part pname mname) (\<lambda>m.
     and_then (lift_r (up_and_enabled m)) (\<lambda>ok.
       if ok then ret False
       else and_then (issue bigip (MemberModify m d)) (\<lambda>_. ret True)))"

subsection \<open>Nodes\<close>

definition get_node :: "'r sdk \<Rightarrow> string \<Rightarrow> string \<Rightarrow> ('r, sdk_obj option) eng" where
  "get_node bigip part nname =
     and_then (query (node_exists bigip nname part)) (\<lambda>ex.
       if ex then and_then (query (node_load bigip nname part)) (\<lambda>n. ret (Some n))
       else ret None)"

definition get_node_list :: "'r sdk \<Rightarrow> string \<Rightarrow> ('r, string list) eng" where
  "get_node_list bigip part =
     and_then (query (nodes_get_collection bigip)) (\<lambda>nodes. ret (names_in part nodes))"

definition node_delete :: "'r sdk \<Rightarrow> string \<Rightarrow> string \<Rightarrow> ('r, unit) eng" where
  "node_delete bigip nname part =
     and_then (query (node_load bigip nname part)) (\<lambda>node. issue bigip (NodeDelete node))"

subsection \<open>Virtual servers and virtual addresses\<close>

definition get_virtual :: "'r sdk \<Rightarrow> string \<Rightarrow> string \<Rightarrow> ('r, sdk_obj) eng" where
  "get_virtual bigip part vname = query (virtual_load bigip vname part)"

definition get_virtual_list :: "'r sdk \<Rightarrow> string \<Rightarrow> ('r, string list) eng" where
  "get_virtual_list bigip part =
     and_then (query (virtuals_get_collection bigip)) (\<lambda>virtuals. ret (names_in part virtuals))"

definition virtual_create :: "'r sdk \<Rightarrow> string \<Rightarrow> string \<Rightarrow> f5_service \<Rightarrow> ('r, unit) eng" where
  "virtual_create bigip part vname svc =
     and_then (lift_r (kwargs [''name'', ''partition''] (svc_virtual svc))) (\<lambda>kw.
       issue bigip (VirtualCreate vname part kw))"

definition virtual_delete :: "'r sdk \<Rightarrow> string \<Rightarrow> string \<Rightarrow> ('r, unit) eng" where
  "virtual_delete bigip part vname =
     and_then (get_virtual bigip part vname) (\<lambda>v. issue bigip (VirtualDelete v))"

definition get_virtual_profiles :: "'r sdk \<Rightarrow> sdk_obj \<Rightarrow> ('r, pyval list) eng" where
  "get_virtual_profiles bigip v =
     and_then (query (profiles_get_collection bigip v)) (\<lambda>v_profiles.
       ret (map (\<lambda>p. PDict [(''name'', PStr (o_name p)), (''partition'', PStr (o_partition p))])
              v_profiles))"

definition get_virtual_address :: "'r sdk \<Rightarrow> string \<Rightarrow> string option \<Rightarrow> ('r, sdk_obj option) eng" where
  "get_virtual_address bigip part addr =
     and_then (query (virtual_address_exists bigip addr part)) (\<lambda>ex.
       if \<not> ex then ret None
       else and_then (query (virtual_address_load bigip addr part)) (\<lambda>a. ret (Some a)))"

definition virtual_address_create :: "'r sdk \<Rightarrow> string \<Rightarrow> string option \<Rightarrow> ('r, unit) eng" where
  "virtual_address_create bigip part addr = issue bigip (VirtualAddressCreate addr part)"

definition virtual_address_update :: "'r sdk \<Rightarrow> sdk_obj \<Rightarrow> ('r, unit) eng" where
  "virtual_address_update bigip virtual_address =
     and_then (lift_r (attr virtual_address ''enabled'')) (\<lambda>en.
       if py_eq en (PStr ''no'')
       then issue bigip (VirtualAddressModify virtual_address [(''enabled'', PStr ''yes'')])
       else ret ())"

text \<open>
  \<^verbatim>\<open>sorted(profiles) == sorted(data['profiles'])\<close>: the two lists hold the same values, each
  as often.  \<^verbatim>\<open>sorted\<close> of a string or a dictionary is a list of characters or keys, which
  equals a list of profiles only when both are empty; other values are not iterable.
\<close>

definition same_profiles :: "pyval list \<Rightarrow> pyval \<Rightarrow> exn + bool" where
  "same_profiles profiles wanted =
     (case wanted of
        PList ps \<Rightarrow> Inr (mset (map canon profiles) = mset (map canon ps))
      | PStr s \<Rightarrow> Inr (profiles = [] \<and> s = [])
      | PDict d \<Rightarrow> Inr (profiles = [] \<and> d = [])
      | _ \<Rightarrow> Inl TypeError)"

definition virtual_update :: "'r sdk \<Rightarrow> string \<Rightarrow> string \<Rightarrow> f5_service \<Rightarrow> ('r, bool) eng" where
  "virtual_update bigip part vname svc =
     (let addr = svc_virtual_address svc in
      and_then (get_virtual_address bigip part addr) (\<lambda>v_addr.
      and_then (case v_addr of
                  None \<Rightarrow> virtual_address_create bigip part addr
                | Some a \<Rightarrow> virtual_address_update bigip a) (\<lambda>_.
      (let d = svc_virtual svc in
       and_then (get_virtual bigip part vname) (\<lambda>v.
       (let no_change =
              list_all (\<lambda>(key, val). case map_of d key of None \<Rightarrow> True | Some dv \<Rightarrow> py_eq dv val)
                (obj_dict v) in
        and_then (get_virtual_profiles bigip v) (\<lambda>profiles.
        and_then (lift_r (bind_r (dict_get d ''profiles'') (same_profiles profiles)))
          (\<lambda>no_profile_change.
          if no_change \<and> no_profile_change then ret False
          else and_then (issue bigip (VirtualModify v d)) (\<lambda>_. ret True)))))))))"

subsection \<open>Health monitors\<close>

text \<open>
  \<^verbatim>\<open>get_healthcheck(partition, hc, hc_type)\<close>: for a type that is neither \<open>http\<close> nor \<open>tcp\<close> the
  source returns the name it was given, a string; this is \<open>None\<close> here, and what the callers
  then do with it raises \<open>AttributeError\<close>.
\<close>

definition get_healthcheck :: "'r sdk \<Rightarrow> string \<Rightarrow> string \<Rightarrow> pyval \<Rightarrow> ('r, sdk_obj option) eng" where
  "get_healthcheck bigip part hname hc_type =
     (if py_eq hc_type (PStr ''http'')
        then and_then (query (http_load bigip hname part)) (\<lambda>h. ret (Some h))
      else if py_eq hc_type (PStr ''tcp'')
        then and_then (query (tcp_load bigip hname part)) (\<lambda>h. ret (Some h))
      else ret None)"

text \<open>
  \<^verbatim>\<open>get_healthcheck_list(partition)\<close>: the dictionary from the names of the monitors to their
  type, the \<open>tcp\<close> monitors entered after the \<open>http\<close> ones.
\<close>

definition get_healthcheck_list :: "'r sdk \<Rightarrow> string \<Rightarrow> ('r, (string \<times> string) list) eng" where
  "get_healthcheck_list bigip part =
     and_then (query (https_get_collection bigip)) (\<lambda>https.
     and_then (query (tcps_get_collection bigip)) (\<lambda>tcps.
       ret (fold (\<lambda>n d. AList.update n ''tcp'' d) (names_in part tcps)
             (fold (\<lambda>n d. AList.update n ''http'' d) (names_in part https) []))))"

definition healthcheck_delete :: "'r sdk \<Rightarrow> string \<Rightarrow> string \<Rightarrow> pyval \<Rightarrow> ('r, unit) eng" where
  "healthcheck_delete bigip part hname hc_type =
     and_then (get_healthcheck bigip part hname hc_type) (\<lambda>h.
     and_then (not_none h) (\<lambda>h. issue bigip (MonitorDelete h)))"

definition http_send_keys :: "string list" where
  "http_send_keys =
     [''adaptive'', ''adaptiveDivergenceType'', ''adaptiveDivergenceValue'', ''adaptiveLimit'',
      ''adaptiveSamplingTimespan'', ''appService'', ''defaultsFrom'', ''description'',
      ''destination'', ''interval'', ''ipDscp'', ''manualResume'', ''name'', ''tmPartition'',
      ''password'', ''recv'', ''recvDisable'', ''reverse'', ''send'', ''timeUntilUp'',
      ''timeout'', ''transparent'', ''upInterval'', ''username'']"

definition tcp_send_keys :: "string list" where
  "tcp_send_keys =
     [''adaptive'', ''adaptiveDivergenceType'', ''adaptiveDivergenceValue'', ''adaptiveLimit'',
      ''adaptiveSamplingTimespan'', ''appService'', ''defaultsFrom'', ''description'',
      ''destination'', ''interval'', ''ipDscp'', ''manualResume'', ''name'', ''tmPartition'',
      ''recv'', ''recvDisable'', ''reverse'', ''send'', ''timeUntilUp'', ''timeout'',
      ''transparent'', ''upInterval'']"

text \<open>
  \<^verbatim>\<open>get_healthcheck_fields(data)\<close>.  The message of the exception is the template of the
  source, without the protocol filled in.
\<close>

definition get_healthcheck_fields :: "pydict \<Rightarrow> exn + pydict" where
  "get_healthcheck_fields d =
     bind_r (dict_get d ''protocol'') (\<lambda>proto.
       if py_eq proto (PStr ''http'') then Inr (filter (\<lambda>(k, v). k \<in> set http_send_keys) d)
       else if py_eq proto (PStr ''tcp'') then Inr (filter (\<lambda>(k, v). k \<in> set tcp_send_keys) d)
       else Inl (OtherException ''Protocol {} is not supported.''))"

definition healthcheck_update :: "'r sdk \<Rightarrow> string \<Rightarrow> string \<Rightarrow> pydict \<Rightarrow> ('r, bool) eng" where
  "healthcheck_update bigip part hname d =
     and_then (lift_r (dict_get d ''protocol'')) (\<lambda>proto.
     and_then (get_healthcheck bigip part hname proto) (\<lambda>h.
     and_then (lift_r (get_healthcheck_fields d)) (\<lambda>send_data.
     and_then (not_none h) (\<lambda>h.
       (let no_change =
              list_all (\<lambda>(key, val). case map_of send_data key of None \<Rightarrow> True
                                      | Some dv \<Rightarrow> py_eq dv val)
                (obj_dict h) in
        if no_change then ret False
        else and_then (issue bigip (MonitorModify h send_data)) (\<lambda>_. ret True))))))"

definition healthcheck_create :: "'r sdk \<Rightarrow> string \<Rightarrow> pydict \<Rightarrow> ('r, unit) eng" where
  "healthcheck_create bigip part d =
     and_then (lift_r (get_healthcheck_fields d)) (\<lambda>send_data.
     and_then (lift_r (dict_get d ''protocol'')) (\<lambda>proto.
     and_then (if py_eq proto (PStr ''http'')
               then and_then (lift_r (kwargs [''partition''] send_data)) (\<lambda>kw.
                      issue bigip (MonitorCreate ''http'' part kw))
               else ret ()) (\<lambda>_.
       if py_eq proto (PStr ''tcp'')
       then and_then (lift_r (kwargs [''partition''] send_data)) (\<lambda>kw.
              issue bigip (MonitorCreate ''tcp'' part kw))
       else ret ())))"

section \<open>The reconciliation: \<^verbatim>\<open>_apply_config\<close> and \<^verbatim>\<open>cleanup_nodes\<close>\<close>

text \<open>
  \<^verbatim>\<open>cleanup_nodes(partition)\<close>.  The inner loop body, for one member and the list of the nodes
  not yet found in use: \<^verbatim>\<open>name, port = member.split(':')\<close> needs exactly two parts.
\<close>

definition cleanup_member :: "'r sdk \<Rightarrow> string \<Rightarrow> string \<Rightarrow> string list \<Rightarrow> ('r, string list) eng" where
  "cleanup_member bigip part mname node_list =
     (case split_on CHR '':'' mname of
        [nname, mport] \<Rightarrow>
          if nname \<in> set node_list then
            (let node_list' = remove1 nname node_list in
             and_then (get_node bigip part nname) (\<lambda>node.
             and_then (not_none node) (\<lambda>node.
             and_then (lift_r (up_and_enabled node)) (\<lambda>ok.
               if ok then ret node_list'
               else and_then (issue bigip (NodeModify node member_state))
                      (\<lambda>_. ret node_list')))))
          else ret node_list
      | _ \<Rightarrow> throw ValueError)"

definition cleanup_nodes :: "'r sdk \<Rightarrow> string \<Rightarrow> ('r, unit) eng" where
  "cleanup_nodes bigip part =
     and_then (get_node_list bigip part) (\<lambda>node_list.
     and_then (get_pool_list bigip part) (\<lambda>pool_list.
     and_then (fold_each pool_list (\<lambda>pname node_list.
                 and_then (get_pool_member_list bigip part pname) (\<lambda>member_list.
                   fold_each member_list (cleanup_member bigip part) node_list))
               node_list) (\<lambda>node_list.
       for_each node_list (\<lambda>node. node_delete bigip node part))))"

text \<open>The lists of names that \<^verbatim>\<open>_apply_config\<close> takes from the configuration.\<close>

definition individually_managed :: "f5_config \<Rightarrow> string \<Rightarrow> string list" where
  "individually_managed cfg part =
     filter (\<lambda>x. case map_of cfg x of None \<Rightarrow> False
                 | Some svc \<Rightarrow> svc_partition svc = part \<and> svc_iapp svc = None)
       (dict_keys cfg)"

definition iapp_managed :: "f5_config \<Rightarrow> string \<Rightarrow> string list" where
  "iapp_managed cfg part =
     filter (\<lambda>x. case map_of cfg x of None \<Rightarrow> False
                 | Some svc \<Rightarrow> svc_partition svc = part \<and> svc_iapp svc \<noteq> None)
       (dict_keys cfg)"

text \<open>One entry for every health check of a service that has a \<open>protocol\<close>.\<close>

definition healthcheck_names :: "f5_config \<Rightarrow> string list \<Rightarrow> string list" where
  "healthcheck_names cfg marathon_virtual_list =
     concat (map (\<lambda>v. case map_of cfg v of None \<Rightarrow> []
                      | Some svc \<Rightarrow>
                          concat (map (\<lambda>hc. if dict_has hc ''protocol'' then [v] else [])
                                   (svc_health svc)))
               marathon_virtual_list)"

text \<open>The resources whose name starts with the name of a managed iApp are left to the iApp.\<close>

definition exclude_iapps :: "string list \<Rightarrow> string list \<Rightarrow> string list" where
  "exclude_iapps marathon_iapp_list xs =
     fold (\<lambda>iapp ys. filter (\<lambda>x. \<not> prefix iapp x) ys) marathon_iapp_list xs"

text \<open>The block \<^verbatim>\<open># Configure iApps\<close>.\<close>

definition configure_iapps :: "'r sdk \<Rightarrow> f5_config \<Rightarrow> string \<Rightarrow> string list \<Rightarrow> ('r, unit) eng" where
  "configure_iapps bigip cfg part marathon_iapp_list =
     and_then (get_iapp_list bigip part) (\<lambda>f5_iapp_list.
     and_then (for_each (list_diff f5_iapp_list marathon_iapp_list)
                 (\<lambda>iapp. iapp_delete bigip part iapp)) (\<lambda>_.
     and_then (for_each (list_diff marathon_iapp_list f5_iapp_list)
                 (\<lambda>iapp. and_then (lift_r (dict_get cfg iapp)) (iapp_create bigip part iapp))) (\<lambda>_.
       for_each (list_intersect marathon_iapp_list f5_iapp_list)
         (\<lambda>iapp. and_then (lift_r (dict_get cfg iapp)) (iapp_update bigip part iapp)))))"

text \<open>The block \<^verbatim>\<open># add/update/remove pool members\<close>, for one pool.\<close>

definition configure_members :: "'r sdk \<Rightarrow> f5_config \<Rightarrow> string \<Rightarrow> string \<Rightarrow> ('r, unit) eng" where
  "configure_members bigip cfg part pname =
     and_then (get_pool_member_list bigip part pname) (\<lambda>f5_member_list.
     and_then (lift_r (dict_get cfg pname)) (\<lambda>svc.
     (let marathon_member_list = dict_keys (svc_nodes svc) in
      and_then (for_each (list_diff f5_member_list marathon_member_list)
                  (\<lambda>m. member_delete bigip part pname m)) (\<lambda>_.
      and_then (for_each (list_diff marathon_member_list f5_member_list)
                  (\<lambda>m. and_then (lift_r (dict_get (svc_nodes svc) m))
                         (member_create bigip part pname m))) (\<lambda>_.
        for_each (list_intersect marathon_member_list f5_member_list)
          (\<lambda>m. and_then (lift_r (dict_get (svc_nodes svc) m))
                 (member_update bigip part pname m)))))))"

text \<open>
  The body of the loop of \<^verbatim>\<open>_apply_config\<close> for one partition, in the order of the source:
  first the block \<^verbatim>\<open># Configure iApps\<close>, then \<open>configure_resources\<close>, which is all that
  follows it.  \<^verbatim>\<open>list(set(pool_add + pool_intersect))\<close> is the list without repetitions;
  Python does not fix its order, the one of \<open>remdups\<close> stands for it.
\<close>

definition configure_resources :: "'r sdk \<Rightarrow> f5_config \<Rightarrow> string \<Rightarrow> string list \<Rightarrow> string list
    \<Rightarrow> string list \<Rightarrow> ('r, unit) eng" where
  "configure_resources bigip cfg part marathon_virtual_list marathon_pool_list marathon_iapp_list =
     (let marathon_healthcheck_list = healthcheck_names cfg marathon_virtual_list in
      and_then (get_pool_list bigip part) (\<lambda>f5_pool_list.
      and_then (get_virtual_list bigip part) (\<lambda>f5_virtual_list.
      and_then (get_healthcheck_list bigip part) (\<lambda>f5_healthcheck_dict.
      (let f5_healthcheck_list = dict_keys f5_healthcheck_dict;
           f5_virtual_list = exclude_iapps marathon_iapp_list f5_virtual_list;
           f5_pool_list = exclude_iapps marathon_iapp_list f5_pool_list;
           f5_healthcheck_list = exclude_iapps marathon_iapp_list f5_healthcheck_list;
           pool_add = list_diff marathon_pool_list f5_pool_list;
           pool_intersect = list_intersect marathon_pool_list f5_pool_list in
       and_then (for_each (list_diff f5_virtual_list marathon_virtual_list)
                   (\<lambda>virt. virtual_delete bigip part virt)) (\<lambda>_.
       and_then (for_each (list_diff f5_pool_list marathon_pool_list)
                   (\<lambda>p. pool_delete bigip part p)) (\<lambda>_.
       and_then (for_each (list_diff f5_healthcheck_list marathon_healthcheck_list)
                   (\<lambda>hc. and_then (lift_r (dict_get f5_healthcheck_dict hc))
                           (\<lambda>t. healthcheck_delete bigip part hc (PStr t)))) (\<lambda>_.
       and_then (for_each (list_diff marathon_healthcheck_list f5_healthcheck_list)
                   (\<lambda>hc. and_then (lift_r (dict_get cfg hc))
                           (\<lambda>svc. for_each (svc_health svc) (healthcheck_create bigip part)))) (\<lambda>_.
       and_then (for_each pool_add
                   (\<lambda>p. and_then (lift_r (dict_get cfg p)) (pool_create bigip part p))) (\<lambda>_.
       and_then (for_each (list_diff marathon_virtual_list f5_virtual_list)
                   (\<lambda>virt. and_then (lift_r (dict_get cfg virt))
                             (virtual_create bigip part virt))) (\<lambda>_.
       and_then (for_each (list_intersect marathon_virtual_list f5_healthcheck_list)
                   (\<lambda>hc. and_then (lift_r (dict_get cfg hc))
                           (\<lambda>svc. for_each (svc_health svc) (healthcheck_update bigip part hc)))) (\<lambda>_.
       and_then (for_each pool_intersect
                   (\<lambda>p. and_then (lift_r (dict_get cfg p)) (pool_update bigip part p))) (\<lambda>_.
       and_then (for_each (list_intersect marathon_virtual_list f5_virtual_list)
                   (\<lambda>virt. and_then (lift_r (dict_get cfg virt))
                             (virtual_update bigip part virt))) (\<lambda>_.
       and_then (for_each (remdups (pool_add @ pool_intersect))
                   (configure_members bigip cfg part)) (\<lambda>_.
         cleanup_nodes bigip part)))))))))))))))"

definition apply_partition :: "'r sdk \<Rightarrow> f5_config \<Rightarrow> string \<Rightarrow> ('r, unit) eng" where
  "apply_partition bigip cfg part =
     (let marathon_virtual_list = individually_managed cfg part;
          marathon_pool_list = individually_managed cfg part;
          marathon_iapp_list = iapp_managed cfg part in
      and_then (configure_iapps bigip cfg part marathon_iapp_list) (\<lambda>_.
        configure_resources bigip cfg part marathon_virtual_list marathon_pool_list
          marathon_iapp_list))"

text \<open>\<^verbatim>\<open>_apply_config(config)\<close>.\<close>

definition apply_config :: "'r sdk \<Rightarrow> cloud_bigip \<Rightarrow> f5_config \<Rightarrow> ('r, unit) eng" where
  "apply_config bigip self cfg =
     and_then (get_partitions bigip (partitions self)) (\<lambda>unique_partitions.
       for_each unique_partitions (apply_partition bigip cfg))"

section \<open>The Kubernetes configuration builder\<close>

text \<open>
  A Kubernetes service record, by the keys the builder reads.  The values have the types of
  the schema; a key that may be absent is an option, and reading an absent key with
  \<^verbatim>\<open>d[k]\<close> raises \<open>KeyError\<close>.
\<close>

record k8s_virtual_address =
  va_bindAddr :: "string option"
  va_port :: "int option"

record k8s_frontend =
  fe_partition :: "string option"
  fe_virtualAddress :: "k8s_virtual_address option"
  fe_iapp :: "string option"
  fe_iappTableName :: "pyval option"
  fe_iappVariables :: "(string \<times> pyval) list option"
  fe_iappOptions :: "pydict option"
  fe_mode :: "string option"
  fe_balance :: "string option"
  fe_sslProfile :: "string option option"

record k8s_backend =
  be_serviceName :: "string option"
  be_servicePort :: "int option"
  be_poolMemberPort :: "int option"
  be_poolMemberAddrs :: "string list option"
  be_healthMonitors :: "pydict list option"

record k8s_virtual_server =
  vs_backend :: "k8s_backend option"
  vs_frontend :: "k8s_frontend option"

record k8s_service =
  virtualServer :: "k8s_virtual_server option"

definition key :: "'a option \<Rightarrow> exn + 'a" where
  "key v = (case v of None \<Rightarrow> Inl KeyError | Some x \<Rightarrow> Inr x)"

definition strip_char :: "char \<Rightarrow> string \<Rightarrow> string" where
  "strip_char c s = rev (dropWhile (\<lambda>x. x = c) (rev (dropWhile (\<lambda>x. x = c) s)))"

text \<open>
  The loop over \<^verbatim>\<open>enumerate(health_monitors)\<close>: the monitors with their names, and the
  string of the monitor paths joined by \<open>and\<close>.
\<close>

fun k8s_monitors :: "string \<Rightarrow> string \<Rightarrow> nat \<Rightarrow> pydict list \<Rightarrow> pydict list \<times> pyval
    \<Rightarrow> pydict list \<times> pyval" where
  "k8s_monitors part frontend_name index [] acc = acc"
| "k8s_monitors part frontend_name index (health # rest) (hs, monitors) =
     (let hname = (if index = 0 then frontend_name
                   else frontend_name @ ''_'' @ string_of_nat index);
          monitor = ''/'' @ part @ ''/'' @ hname;
          monitors' = (case monitors of
                         PStr m \<Rightarrow> PStr (m @ '' and '' @ monitor)
                       | _ \<Rightarrow> PStr monitor)
      in k8s_monitors part frontend_name (Suc index) rest
           (hs @ [AList.update ''name'' (PStr hname) health], monitors'))"

definition k8s_nodes :: "string list \<Rightarrow> int \<Rightarrow> (string \<times> pydict) list" where
  "k8s_nodes addrs poolMemberPort =
     fold (\<lambda>node nodes. AList.update (node @ '':'' @ string_of_int poolMemberPort) member_state nodes)
       addrs []"

text \<open>
  The body of the loop of \<^verbatim>\<open>_create_config_kubernetes\<close> for one service; \<open>Inr None\<close> is a
  \<^verbatim>\<open>continue\<close>.  The entry of an iApp has no \<open>virtual\<close>, \<open>pool\<close> and \<open>health\<close>: they are empty here.
\<close>

definition kubernetes_service :: "cloud_bigip \<Rightarrow> k8s_service \<Rightarrow> exn + f5_service option" where
  "kubernetes_service self svc =
     bind_r (key (virtualServer svc)) (\<lambda>vs.
     bind_r (key (vs_backend vs)) (\<lambda>backend.
     bind_r (key (vs_frontend vs)) (\<lambda>frontend.
     (let health_monitors = (case be_healthMonitors backend of None \<Rightarrow> [] | Some hs \<Rightarrow> hs) in
      bind_r (key (fe_partition frontend)) (\<lambda>part.
      bind_r (has_partition (partitions self) (Some part)) (\<lambda>managed.
        if \<not> managed then Inr None
        else if (case fe_virtualAddress frontend of None \<Rightarrow> True | Some va \<Rightarrow> va_bindAddr va = None)
                \<and> fe_iapp frontend = None then Inr None
        else
          bind_r (if fe_iapp frontend \<noteq> None then Inr ''iapp''
                  else bind_r (key (fe_virtualAddress frontend)) (\<lambda>va. key (va_bindAddr va)))
            (\<lambda>virt_addr.
          bind_r (case fe_virtualAddress frontend of
                    None \<Rightarrow> key (be_servicePort backend)
                  | Some va \<Rightarrow> key (va_port va)) (\<lambda>vport.
          bind_r (key (be_serviceName backend)) (\<lambda>serviceName.
          (let frontend_name =
                 strip_char CHR ''/'' serviceName @ ''_'' @ virt_addr @ ''_'' @ string_of_int vport in
           bind_r
             (case fe_iapp frontend of
                Some tmpl \<Rightarrow>
                  bind_r (key (fe_iappTableName frontend)) (\<lambda>tn.
                  bind_r (key (fe_iappVariables frontend)) (\<lambda>vars.
                  bind_r (key (fe_iappOptions frontend)) (\<lambda>opts.
                    Inr \<lparr> svc_name = frontend_name, svc_partition = part,
                          svc_iapp = Some \<lparr> template = tmpl, tableName = tn,
                                             variables = vars, options = opts \<rparr>,
                          svc_virtual = [], svc_pool = [], svc_nodes = [], svc_health = [],
                          svc_virtual_address = None \<rparr>)))
              | None \<Rightarrow>
                  bind_r (case fe_sslProfile frontend of
                            None \<Rightarrow> Inr []
                          | Some sp \<Rightarrow> bind_r (key sp) (\<lambda>n.
                              Inr (case split_on CHR ''/'' n of
                                     [a, b] \<Rightarrow> [PDict [(''partition'', PStr a), (''name'', PStr b)]]
                                   | _ \<Rightarrow> []))) (\<lambda>ssl.
                  bind_r (key (fe_mode frontend)) (\<lambda>m.
                  bind_r (key (fe_virtualAddress frontend)) (\<lambda>va.
                  bind_r (key (va_bindAddr va)) (\<lambda>bind_addr.
                  bind_r (key (va_port va)) (\<lambda>va_p.
                  (let hm = k8s_monitors part frontend_name 0 health_monitors ([], PNone) in
                   bind_r (key (fe_balance frontend)) (\<lambda>bal.
                     Inr \<lparr> svc_name = frontend_name, svc_partition = part, svc_iapp = None,
                           svc_virtual =
                             [(''enabled'', PBool True),
                              (''disabled'', PBool False),
                              (''ipProtocol'', opt_str (get_protocol m)),
                              (''destination'',
                                 PStr (''/'' @ part @ ''/'' @ bind_addr @ '':'' @ string_of_int va_p)),
                              (''pool'', PStr (''/'' @ part @ ''/'' @ frontend_name)),
                              (''sourceAddressTranslation'', PDict [(''type'', PStr ''automap'')]),
                              (''profiles'', PList (ssl @ mode_profiles m))],
                           svc_pool = [(''monitor'', snd hm), (''loadBalancingMode'', PStr bal)],
                           svc_nodes = [], svc_health = fst hm,
                           svc_virtual_address = Some bind_addr \<rparr>)))))))) (\<lambda>f5_service.
           bind_r (key (be_poolMemberPort backend)) (\<lambda>poolMemberPort.
           bind_r (key (be_poolMemberAddrs backend)) (\<lambda>addrs.
             Inr (Some (f5_service\<lparr> svc_nodes := k8s_nodes addrs poolMemberPort \<rparr>)))))))))))))))"

fun kubernetes_loop :: "cloud_bigip \<Rightarrow> k8s_service list \<Rightarrow> f5_config \<Rightarrow> exn + f5_config" where
  "kubernetes_loop self [] f5 = Inr f5"
| "kubernetes_loop self (svc # svcs) f5 =
     (case kubernetes_service self svc of
        Inl e \<Rightarrow> Inl e
      | Inr None \<Rightarrow> kubernetes_loop self svcs f5
      | Inr (Some s) \<Rightarrow> kubernetes_loop self svcs (AList.update (svc_name s) s f5))"

text \<open>\<^verbatim>\<open>CloudBigIP._create_config_kubernetes(svcs)\<close>.\<close>

definition create_config_kubernetes :: "cloud_bigip \<Rightarrow> k8s_service list \<Rightarrow> exn + f5_config" where
  "create_config_kubernetes self svcs = kubernetes_loop self svcs []"

section \<open>One reconciliation pass: \<^verbatim>\<open>regenerate_config_f5\<close>\<close>

text \<open>
  The state handed over by the orchestrator: the list of Marathon applications, or the list
  of Kubernetes services, bare or as the value of the key \<open>services\<close> of a dictionary.
  A state of the other orchestrator than \<^verbatim>\<open>self._cloud\<close> names is outside the model.
\<close>

datatype cloud_state =
    MarathonApps "marathon_app list"
  | KubernetesServices "k8s_service list"
  | KubernetesConfig "(string \<times> k8s_service list) list"

definition create_config :: "cloud_bigip \<Rightarrow> cloud_state \<Rightarrow> exn + f5_config" where
  "create_config self cs =
     (if cloud self = ''marathon'' then
        (case cs of
           MarathonApps apps \<Rightarrow> create_config_marathon self apps
         | _ \<Rightarrow> Inl NotModelled)
      else
        (case cs of
           KubernetesConfig d \<Rightarrow>
             if dict_has d ''services''
             then bind_r (dict_get d ''services'') (create_config_kubernetes self)
             else Inl NotModelled
         | KubernetesServices svcs \<Rightarrow> create_config_kubernetes self svcs
         | MarathonApps apps \<Rightarrow> Inl NotModelled))"

text \<open>The body of the \<^verbatim>\<open>try\<close> statement: the configuration is built and applied.\<close>

definition reconcile :: "'r sdk \<Rightarrow> cloud_bigip \<Rightarrow> cloud_state \<Rightarrow> ('r, unit) eng" where
  "reconcile bigip self cs = and_then (lift_r (create_config self cs)) (apply_config bigip self)"

definition catch :: "('r, 'a) eng \<Rightarrow> (exn \<Rightarrow> ('r, 'a) eng) \<Rightarrow> ('r, 'a) eng" where
  "catch m handler = (\<lambda>s. case m s of (Inl e, s') \<Rightarrow> handler e s' | (Inr a, s') \<Rightarrow> (Inr a, s'))"

text \<open>
  \<^verbatim>\<open>regenerate_config_f5(cloud_state)\<close>: the four handlers return \<^verbatim>\<open>True\<close>, the handler of
  \<^verbatim>\<open>Exception\<close> raises again, and \<^verbatim>\<open>False\<close> is returned after the \<^verbatim>\<open>try\<close> statement.
\<close>

definition regenerate_config_f5 :: "'r sdk \<Rightarrow> cloud_bigip \<Rightarrow> cloud_state \<Rightarrow> ('r, bool) eng" where
  "regenerate_config_f5 bigip self cs =
     catch (and_then (reconcile bigip self cs) (\<lambda>_. ret False))
       (\<lambda>e. case e of
               ConnectionError \<Rightarrow> ret True
             | F5SDKError \<Rightarrow> ret True
             | BigIPInvalidURL \<Rightarrow> ret True
             | IControlUnexpectedHTTPError \<Rightarrow> ret True
             | _ \<Rightarrow> throw e)"

section \<open>Notions used to state the properties of a pass\<close>

text \<open>The changing calls a computation issues when it is run from the state \<open>s\<close>.\<close>

definition issued_by :: "('r, 'a) eng \<Rightarrow> 'r \<times> op list \<Rightarrow> op list" where
  "issued_by m s = drop (length (snd s)) (snd (snd (m s)))"

text \<open>The place of a changing call in the order in which \<^verbatim>\<open>_apply_config\<close> works on a partition.\<close>

fun phase :: "op \<Rightarrow> nat" where
  "phase (ServiceDelete a) = 0"
| "phase (ServiceCreate n t p vs ts os) = 1"
| "phase (ServiceUpdate a n p vs ts os) = 2"
| "phase (VirtualDelete v) = 3"
| "phase (PoolDelete p) = 4"
| "phase (MonitorDelete h) = 5"
| "phase (MonitorCreate k p d) = 6"
| "phase (PoolCreate p n d) = 7"
| "phase (VirtualCreate n p d) = 8"
| "phase (MonitorModify h d) = 9"
| "phase (PoolModify p d) = 10"
| "phase (VirtualAddressCreate a p) = 11"
| "phase (VirtualAddressModify a d) = 11"
| "phase (VirtualModify v d) = 11"
| "phase (MemberDelete m) = 12"
| "phase (MemberCreate p n q d) = 12"
| "phase (MemberModify m d) = 12"
| "phase (NodeModify n d) = 13"
| "phase (NodeDelete n) = 14"

fun monitor_delete_or_create :: "op \<Rightarrow> bool" where
  "monitor_delete_or_create (MonitorDelete h) = True"
| "monitor_delete_or_create (MonitorCreate k p d) = True"
| "monitor_delete_or_create c = False"

fun pool_create_or_update :: "op \<Rightarrow> bool" where
  "pool_create_or_update (PoolCreate p n d) = True"
| "pool_create_or_update (PoolModify p d) = True"
| "pool_create_or_update c = False"

fun pool_delete_op :: "op \<Rightarrow> bool" where
  "pool_delete_op (PoolDelete p) = True"
| "pool_delete_op c = False"

definition pool_operation :: "op \<Rightarrow> bool" where
  "pool_operation c = (pool_delete_op c \<or> pool_create_or_update c)"

text \<open>
  \<open>staged lo hi m\<close>: whatever the state, \<open>m\<close> only adds calls to those issued, and the calls it
  adds have phases between \<open>lo\<close> and \<open>hi\<close> that never decrease.  \<open>extends m\<close>: \<open>m\<close> only adds calls.
\<close>

definition staged :: "nat \<Rightarrow> nat \<Rightarrow> ('r, 'a) eng \<Rightarrow> bool" where
  "staged lo hi m =
     (\<forall>s. \<exists>xs. snd (snd (m s)) = snd s @ xs \<and> sorted (map phase xs) \<and>
                (\<forall>x \<in> set xs. lo \<le> phase x \<and> phase x \<le> hi))"

definition extends :: "('r, 'a) eng \<Rightarrow> bool" where
  "extends m = (\<forall>s. \<exists>xs. snd (snd (m s)) = snd s @ xs)"

definition retry_requested :: "exn \<Rightarrow> bool" where
  "retry_requested e =
     (e = ConnectionError \<or> e = F5SDKError \<or> e = BigIPInvalidURL \<or> e = IControlUnexpectedHTTPError)"

section \<open>A BIG-IP for the examples\<close>

text \<open>
  A BIG-IP that answers every read from a fixed snapshot and accepts every changing call
  but those that \<open>snap_failing\<close> makes raise.  It serves to run the controller on concrete
  inputs; \<open>load\<close> of a resource that the snapshot does not hold raises the SDK's error.
\<close>

record snapshot =
  snap_folders :: "sdk_obj list"
  snap_services :: "sdk_obj list"
  snap_pools :: "sdk_obj list"
  snap_members :: "(sdk_obj \<times> sdk_obj list) list"
  snap_nodes :: "sdk_obj list"
  snap_virtuals :: "sdk_obj list"
  snap_https :: "sdk_obj list"
  snap_tcps :: "sdk_obj list"
  snap_failing :: "op \<Rightarrow> exn option"

definition load_from :: "sdk_obj list \<Rightarrow> string \<Rightarrow> string \<Rightarrow> exn + sdk_obj" where
  "load_from objs n p =
     (case find (\<lambda>obj. o_name obj = n \<and> o_partition obj = p) objs of
        None \<Rightarrow> Inl F5SDKError
      | Some obj \<Rightarrow> Inr obj)"

definition snapshot_bigip :: "snapshot \<Rightarrow> unit sdk" where
  "snapshot_bigip snap =
     \<lparr> folders_get_collection = (\<lambda>r. Inr (snap_folders snap)),
       services_get_collection = (\<lambda>r. Inr (snap_services snap)),
       service_load = (\<lambda>n p r. load_from (snap_services snap) n p),
       pools_get_collection = (\<lambda>r. Inr (snap_pools snap)),
       members_get_collection =
         (\<lambda>p r. Inr (case map_of (snap_members snap) p of None \<Rightarrow> [] | Some ms \<Rightarrow> ms)),
       member_load =
         (\<lambda>p n q r. load_from (case map_of (snap_members snap) p of None \<Rightarrow> [] | Some ms \<Rightarrow> ms) n q),
       nodes_get_collection = (\<lambda>r. Inr (snap_nodes snap)),
       node_exists = (\<lambda>n p r. Inr (load_from (snap_nodes snap) n p \<noteq> Inl F5SDKError)),
       node_load = (\<lambda>n p r. load_from (snap_nodes snap) n p),
       virtuals_get_collection = (\<lambda>r. Inr (snap_virtuals snap)),
       virtual_load = (\<lambda>n p r. load_from (snap_virtuals snap) n p),
       profiles_get_collection = (\<lambda>v r. Inr []),
       virtual_address_exists = (\<lambda>a p r. Inr False),
       virtual_address_load = (\<lambda>a p r. Inl F5SDKError),
       https_get_collection = (\<lambda>r. Inr (snap_https snap)),
       tcps_get_collection = (\<lambda>r. Inr (snap_tcps snap)),
       http_load = (\<lambda>n p r. load_from (snap_https snap) n p),
       tcp_load = (\<lambda>n p r. load_from (snap_tcps snap) n p),
       perform = (\<lambda>c r. (case snap_failing snap c of None \<Rightarrow> Inr () | Some e \<Rightarrow> Inl e, r)) \<rparr>"

definition empty_snapshot :: snapshot where
  "empty_snapshot =
     \<lparr> snap_folders = [], snap_services = [], snap_pools = [], snap_members = [],
       snap_nodes = [], snap_virtuals = [], snap_https = [], snap_tcps = [],
       snap_failing = (\<lambda>c. None) \<rparr>"

definition resource :: "string \<Rightarrow> string \<Rightarrow> sdk_obj" where
  "resource p n = \<lparr> o_name = n, o_partition = p, o_attrs = [] \<rparr>"


definition stale_pool_and_monitor :: snapshot where
  "stale_pool_and_monitor =
     empty_snapshot \<lparr> snap_pools := [resource ''prod'' ''old''],
                      snap_tcps := [resource ''prod'' ''old''] \<rparr>"


definition example_iapp_service :: f5_service where
  "example_iapp_service =
     \<lparr> svc_name = ''web_iapp_80'', svc_partition = ''prod'',
       svc_iapp = Some \<lparr> template = ''/Common/f5.http'', tableName = PStr ''pool__members'',
                          variables = [(''net__server_mode'', PStr ''lan'')],
                          options = [(''description'', PStr ''web'')] \<rparr>,
       svc_virtual = [], svc_pool = [],
       svc_nodes = [(''10.1.0.1:8080'', member_state), (''10.1.0.2:8080'', member_state)],
       svc_health = [], svc_virtual_address = None \<rparr>"

definition deployed_iapp :: snapshot where
  "deployed_iapp = empty_snapshot \<lparr> snap_services := [resource ''prod'' ''web_iapp_80''] \<rparr>"


definition monitor_delete_refused :: snapshot where
  "monitor_delete_refused =
     stale_pool_and_monitor
       \<lparr> snap_failing := (\<lambda>c. case c of MonitorDelete h \<Rightarrow> Some ConnectionError | _ \<Rightarrow> None) \<rparr>"

definition same_name_pools :: snapshot where
  "same_name_pools =
     empty_snapshot
       \<lparr> snap_pools := [resource ''other'' ''web'', resource ''prod'' ''web''],
         snap_members := [(resource ''other'' ''web'', [resource ''other'' ''10.0.0.9:80'']),
                          (resource ''prod'' ''web'', [resource ''prod'' ''10.0.0.1:80''])],
         snap_nodes := [\<lparr> o_name = ''10.0.0.1'', o_partition = ''prod'',
                           o_attrs = [(''state'', PStr ''unchecked''),
                                      (''session'', PStr ''user-enabled'')] \<rparr>] \<rparr>"


definition example_k8s_service :: "string \<Rightarrow> k8s_service" where
  "example_k8s_service m =
     \<lparr> virtualServer = Some
         \<lparr> vs_backend = Some
             \<lparr> be_serviceName = Some ''web'', be_servicePort = Some 80,
               be_poolMemberPort = Some 30080,
               be_poolMemberAddrs = Some [''10.2.0.1'', ''10.2.0.2''],
               be_healthMonitors = None \<rparr>,
           vs_frontend = Some
             \<lparr> fe_partition = Some ''prod'',
               fe_virtualAddress = Some \<lparr> va_bindAddr = Some ''10.0.0.1'', va_port = Some 80 \<rparr>,
               fe_iapp = None, fe_iappTableName = None, fe_iappVariables = None,
               fe_iappOptions = None, fe_mode = Some m, fe_balance = Some ''round-robin'',
               fe_sslProfile = None \<rparr> \<rparr> \<rparr>"

section \<open>Notions used to state what the sweep of the nodes does\<close>

text \<open>
  On a snapshot: the members of a pool, the node a member name refers to, the member names of
  all the pools of a partition, whether a node fails the test that leaves it untouched, and
  whether every pool of the partition is the pool that a search by its name finds.
\<close>

definition members_of :: "snapshot \<Rightarrow> sdk_obj \<Rightarrow> sdk_obj list" where
  "members_of snap p = (case map_of (snap_members snap) p of None \<Rightarrow> [] | Some ms \<Rightarrow> ms)"

definition node_name_of :: "string \<Rightarrow> string" where
  "node_name_of m = hd (split_on CHR '':'' m)"

definition partition_members :: "snapshot \<Rightarrow> string \<Rightarrow> string list" where
  "partition_members snap part =
     concat (map (\<lambda>p. map o_name (members_of snap p))
               (filter (\<lambda>p. o_partition p = part) (snap_pools snap)))"

definition needs_enable :: "snapshot \<Rightarrow> string \<Rightarrow> string \<Rightarrow> bool" where
  "needs_enable snap part n =
     (case load_from (snap_nodes snap) n part of
        Inr node \<Rightarrow> up_and_enabled node = Inr False
      | Inl e \<Rightarrow> False)"

definition lookup_unambiguous :: "snapshot \<Rightarrow> string \<Rightarrow> bool" where
  "lookup_unambiguous snap part =
     list_all (\<lambda>p. o_partition p = part \<longrightarrow>
                  find (\<lambda>q. o_name q = o_name p) (snap_pools snap) = Some p)
       (snap_pools snap)"

text \<open>What one step of a loop does, as a relation, and what the whole loop then does.\<close>

inductive steps :: "('a \<Rightarrow> 'b \<Rightarrow> 'b \<Rightarrow> op list \<Rightarrow> bool) \<Rightarrow> 'a list \<Rightarrow> 'b \<Rightarrow> 'b \<Rightarrow> op list \<Rightarrow> bool"
  for P :: "'a \<Rightarrow> 'b \<Rightarrow> 'b \<Rightarrow> op list \<Rightarrow> bool" where
  steps_Nil: "steps P [] acc acc []"
| steps_Cons: "P x acc acc' ops \<Longrightarrow> steps P xs acc' r ops' \<Longrightarrow> steps P (x # xs) acc r (ops @ ops')"

definition sweep_step :: "snapshot \<Rightarrow> string \<Rightarrow> string \<Rightarrow> string list \<Rightarrow> string list \<Rightarrow> op list \<Rightarrow> bool" where
  "sweep_step snap part m nl nl' ops =
     (\<exists>n p. split_on CHR '':'' m = [n, p] \<and>
        (if n \<in> set nl then
           nl' = remove1 n nl \<and>
           (\<exists>node ok. load_from (snap_nodes snap) n part = Inr node \<and> up_and_enabled node = Inr ok \<and>
              ops = (if ok then [] else [NodeModify node member_state]))
         else nl' = nl \<and> ops = []))"

fun node_modified :: "op \<Rightarrow> string list" where
  "node_modified (NodeModify n d) = [o_name n]"
| "node_modified c = []"

fun node_deleted :: "op \<Rightarrow> string list" where
  "node_deleted (NodeDelete n) = [o_name n]"
| "node_deleted c = []"

definition found_members :: "snapshot \<Rightarrow> string \<Rightarrow> string list" where
  "found_members snap pn =
     (case find (\<lambda>p. o_name p = pn) (snap_pools snap) of
        None \<Rightarrow> []
      | Some p \<Rightarrow> map o_name (members_of snap p))"

definition one_partition :: snapshot where
  "one_partition =
     empty_snapshot
       \<lparr> snap_pools := [resource ''prod'' ''web''],
         snap_members := [(resource ''prod'' ''web'', [resource ''prod'' ''10.0.0.1:80''])],
         snap_nodes := [\<lparr> o_name = ''10.0.0.1'', o_partition = ''prod'',
                           o_attrs = [(''state'', PStr ''user-down''),
                                      (''session'', PStr ''user-disabled'')] \<rparr>,
                        \<lparr> o_name = ''10.0.0.7'', o_partition = ''prod'',
                           o_attrs = [(''state'', PStr ''unchecked''),
                                      (''session'', PStr ''user-enabled'')] \<rparr>] \<rparr>"

section \<open>Properties of the helpers\<close>

text \<open>
  Claim C5.  For a health-check record whose fields \<open>maxConsecutiveFailures\<close>,
  \<open>intervalSeconds\<close> and \<open>timeoutSeconds\<close> are integers, the computed monitor timeout is
  \<open>(maxConsecutiveFailures - 1) * intervalSeconds + timeoutSeconds + 1\<close>.
\<close>

theorem healthcheck_timeout_formula:
  assumes "map_of data ''maxConsecutiveFailures'' = Some (PInt m)"
    and "map_of data ''intervalSeconds'' = Some (PInt i)"
    and "map_of data ''timeoutSeconds'' = Some (PInt t)"
  shows "healthcheck_timeout_calculate data = Inr ((m - 1) * i + t + 1)"
  using assms by (simp add: healthcheck_timeout_calculate_def dict_get_def)

theorem healthcheck_timeout_formula_witness:
  "healthcheck_timeout_calculate
     [(''maxConsecutiveFailures'', PInt 3), (''intervalSeconds'', PInt 5),
      (''timeoutSeconds'', PInt 10)] = Inr 21"
  using healthcheck_timeout_formula
    [of "[(''maxConsecutiveFailures'', PInt 3), (''intervalSeconds'', PInt 5),
          (''timeoutSeconds'', PInt 10)]" 3 5 10]
  by simp

text \<open>
  Claim C1.  For a list \<open>D\<close> of desired names and a list \<open>A\<close> of actual names, the names to
  delete are those of \<open>A\<close> not in \<open>D\<close>, the names to add those of \<open>D\<close> not in \<open>A\<close>, the names to
  update those of \<open>D\<close> that are in \<open>A\<close>; membership decides, each result keeps the order of its
  first operand (it is a subsequence of it), and no name is both deleted and added, or both
  added and updated.
\<close>

theorem list_diff_correct:
  "set (list_diff A D) = set A - set D \<and>
   set (list_diff D A) = set D - set A \<and>
   set (list_intersect D A) = set D \<inter> set A \<and>
   subseq (list_diff A D) A \<and> subseq (list_diff D A) D \<and> subseq (list_intersect D A) D \<and>
   set (list_diff A D) \<inter> set (list_diff D A) = {} \<and>
   set (list_diff D A) \<inter> set (list_intersect D A) = {}"
  by (auto simp: list_diff_def list_intersect_def)

lemma dict_has_map_of: "dict_has d k \<longleftrightarrow> map_of d k \<noteq> None"
  by (simp add: dict_has_def map_of_eq_None_iff)

text \<open>
  Claim C7.  For a health monitor with protocol \<open>http\<close> the send string is
  \<open>GET <path> HTTP/1.0\<close> followed by backslash, \<open>r\<close>, backslash, \<open>n\<close>, twice, where the path is the
  field \<open>path\<close> when the record has it and \<open>/\<close> otherwise; for any other protocol it is \<open>None\<close>.
\<close>

theorem healthcheck_sendstring_http:
  "(map_of data ''protocol'' = Some (PStr ''http'') \<and> map_of data ''path'' = Some (PStr p) \<longrightarrow>
      healthcheck_sendstring data =
        Inr (PStr (''GET '' @ p @ '' HTTP/1.0'' @
              [CHR 0x5C, CHR ''r'', CHR 0x5C, CHR ''n'', CHR 0x5C, CHR ''r'', CHR 0x5C, CHR ''n'']))) \<and>
   (map_of data ''protocol'' = Some (PStr ''http'') \<and> map_of data ''path'' = None \<longrightarrow>
      healthcheck_sendstring data =
        Inr (PStr (''GET / HTTP/1.0'' @
              [CHR 0x5C, CHR ''r'', CHR 0x5C, CHR ''n'', CHR 0x5C, CHR ''r'', CHR 0x5C, CHR ''n'']))) \<and>
   (map_of data ''protocol'' = Some v \<and> v \<noteq> PStr ''http'' \<longrightarrow>
      healthcheck_sendstring data = Inr PNone)"
  by (simp add: healthcheck_sendstring_def dict_get_def dict_has_map_of crlf_escaped_def
      backslash_def)

text \<open>The three cases on concrete monitors.\<close>

theorem healthcheck_sendstring_http_witness:
  "healthcheck_sendstring [(''protocol'', PStr ''http''), (''path'', PStr ''/health'')] =
     Inr (PStr (''GET /health HTTP/1.0'' @
           [CHR 0x5C, CHR ''r'', CHR 0x5C, CHR ''n'', CHR 0x5C, CHR ''r'', CHR 0x5C, CHR ''n''])) \<and>
   healthcheck_sendstring [(''protocol'', PStr ''http'')] =
     Inr (PStr (''GET / HTTP/1.0'' @
           [CHR 0x5C, CHR ''r'', CHR 0x5C, CHR ''n'', CHR 0x5C, CHR ''r'', CHR 0x5C, CHR ''n''])) \<and>
   healthcheck_sendstring [(''protocol'', PStr ''tcp''), (''path'', PStr ''/health'')] = Inr PNone"
  using healthcheck_sendstring_http
      [of "[(''protocol'', PStr ''http''), (''path'', PStr ''/health'')]" "''/health''" PNone]
    healthcheck_sendstring_http [of "[(''protocol'', PStr ''http'')]" "''x''" PNone]
    healthcheck_sendstring_http
      [of "[(''protocol'', PStr ''tcp''), (''path'', PStr ''/health'')]" "''x''" "PStr ''tcp''"]
  by simp

lemma has_partition_total:
  "has_partition ps p = Inr (truthy p \<and> (''*'' \<in> set ps \<or> py_str p \<in> set ps))"
  by (auto simp: has_partition_def)

text \<open>
  Claim C6, as stated: among \<open>tcp\<close>, \<open>http\<close> and \<open>udp\<close>, each derives \<open>tcp\<close>.  It fails for
  \<open>udp\<close>, which derives \<open>udp\<close>.
\<close>

theorem get_protocol_udp_counterexample:
  "get_protocol ''udp'' = Some ''udp'' \<and> get_protocol ''udp'' \<noteq> Some ''tcp''"
  by (simp add: get_protocol_def lower_def lower_char_def)

lemma marathon_loop_skip:
  "marathon_loop self xs f5 =
   marathon_loop self (filter (\<lambda>a. marathon_service self a \<noteq> Inr None) xs) f5"
proof (induction xs arbitrary: f5)
  case Nil
  show ?case by simp
next
  case (Cons a xs)
  show ?case
  proof (cases "marathon_service self a")
    case (Inl e)
    then show ?thesis by simp
  next
    case (Inr r)
    then show ?thesis using Cons.IH by (cases r) simp_all
  qed
qed


lemma create_config_marathon_skip:
  assumes "marathon_service self app = Inr None"
  shows "create_config_marathon self (xs @ app # ys) = create_config_marathon self (xs @ ys)"
proof -
  let ?P = "\<lambda>a. marathon_service self a \<noteq> Inr None"
  let ?k = "\<lambda>app. (appId app, servicePort app)"
  have "filter ?P (xs @ app # ys) = filter ?P (xs @ ys)"
    using assms by simp
  then have "sort_key ?k (filter ?P (xs @ app # ys)) = sort_key ?k (filter ?P (xs @ ys))"
    by (rule arg_cong)
  then have eq: "filter ?P (sort_key ?k (xs @ app # ys)) = filter ?P (sort_key ?k (xs @ ys))"
    by (simp only: filter_sort)
  have "marathon_loop self (sort_key ?k (xs @ app # ys)) [] =
        marathon_loop self (filter ?P (sort_key ?k (xs @ app # ys))) []"
    by (rule marathon_loop_skip)
  also have "\<dots> = marathon_loop self (filter ?P (sort_key ?k (xs @ ys))) []"
    by (simp only: eq)
  also have "\<dots> = marathon_loop self (sort_key ?k (xs @ ys)) []"
    by (rule marathon_loop_skip [symmetric])
  finally show ?thesis
    by (simp only: create_config_marathon_def)
qed

lemma marathon_service_unmanaged:
  assumes "has_partition (partitions self) (partition_label app) = Inr False"
  shows "marathon_service self app = Inr None"
  using assms by (simp add: marathon_service_def bind_r_def)

lemma create_config_marathon_single:
  "create_config_marathon self [app] =
     (case marathon_service self app of
        Inl e \<Rightarrow> Inl e
      | Inr None \<Rightarrow> Inr []
      | Inr (Some s) \<Rightarrow> Inr [(svc_name s, s)])"
  by (simp add: create_config_marathon_def split: sum.splits option.splits)

lemma marathon_healthcheck_wellformed:
  assumes "healthcheck_wellformed hc"
  shows "\<exists>h. marathon_healthcheck n hc = Inr h \<and> map_of h ''name'' = Some (PStr n)"
proof -
  from assms obtain p m i t where
    p: "map_of hc ''protocol'' = Some (PStr p)" and
    m: "map_of hc ''maxConsecutiveFailures'' = Some (PInt m)" and
    i: "map_of hc ''intervalSeconds'' = Some (PInt i)" and
    t: "map_of hc ''timeoutSeconds'' = Some (PInt t)"
    by (auto simp: healthcheck_wellformed_def split: option.splits pyval.splits)
  from assms have path: "map_of hc ''path'' = None \<or> (\<exists>q. map_of hc ''path'' = Some (PStr q))"
    by (auto simp: healthcheck_wellformed_def split: option.splits pyval.splits)
  let ?hc2 = "AList.update ''protocol'' (PStr (lower p)) (AList.update ''name'' (PStr n) hc)"
  have tm: "healthcheck_timeout_calculate ?hc2 = Inr ((m - 1) * i + t + 1)"
    using m i t by (simp add: healthcheck_timeout_calculate_def dict_get_def update_conv')
  have "\<exists>s. healthcheck_sendstring ?hc2 = Inr s"
    using path p
    by (auto simp: healthcheck_sendstring_def dict_get_def dict_has_map_of update_conv')
  then obtain s where s: "healthcheck_sendstring ?hc2 = Inr s" ..
  have "marathon_healthcheck n hc =
          Inr (AList.update ''send'' s (AList.update ''timeout'' (PInt ((m - 1) * i + t + 1))
                 (AList.update ''interval'' (PInt i) ?hc2)))"
    using p i tm s
    by (simp add: marathon_healthcheck_def Let_def bind_r_def dict_get_def dict_has_map_of
        update_conv')
  then show ?thesis
    by (simp add: update_conv')
qed

lemma marathon_service_valid:
  assumes star: "''*'' \<in> set (partitions self) \<or> py_str (partition_label app) \<in> set (partitions self)"
    and valid: "otherwise_valid self app"
  shows "\<exists>svc. marathon_service self app = Inr (Some svc) \<and> svc_name svc = frontend_name_of app \<and>
           svc_partition svc = py_str (partition_label app)"
proof -
  have hp: "has_partition (partitions self) (partition_label app) = Inr True"
    using star valid by (simp add: has_partition_total otherwise_valid_def)
  have c2: "\<not> (\<not> truthy (bindAddr app) \<and> \<not> truthy (iapp app))"
    and c3: "\<not> (\<not> truthy (iapp app) \<and> \<not> is_label_data_valid self app)"
    using valid by (auto simp: otherwise_valid_def)
  show ?thesis
  proof (cases "has_healthCheck app")
    case False
    then show ?thesis
      using hp c2 c3 by (simp add: marathon_service_def bind_r_def Let_def)
  next
    case True
    with valid have "healthcheck_wellformed (the_healthCheck app)"
      by (simp add: otherwise_valid_def)
    from marathon_healthcheck_wellformed [OF this, of "frontend_name_of app"]
    obtain h where h: "marathon_healthcheck (frontend_name_of app) (the_healthCheck app) = Inr h"
      and hn: "map_of h ''name'' = Some (PStr (frontend_name_of app))" by blast
    show ?thesis
      using hp c2 c3 True h hn
      by (simp add: marathon_service_def bind_r_def Let_def dict_get_def)
  qed
qed

text \<open>
  Claim C9.  An application whose partition is not in the list of managed partitions, when
  the list does not contain \<open>*\<close>, yields no entry and no error: the builder returns the
  configuration it returns without the application.  When the list contains \<open>*\<close>, an
  application that is otherwise valid (it names a partition, it has a bind address or an
  iApp, its labels are valid unless it is an iApp, its health check is complete if it has
  one) yields exactly one entry, under the name generated for it.
\<close>

theorem partition_exclusion_policy:
  "(''*'' \<notin> set (partitions self) \<and> partition_label app \<notin> Some ` set (partitions self) \<longrightarrow>
      create_config_marathon self [app] = Inr [] \<and>
      (\<forall>xs ys. create_config_marathon self (xs @ app # ys) = create_config_marathon self (xs @ ys))) \<and>
   (''*'' \<in> set (partitions self) \<and> otherwise_valid self app \<longrightarrow>
      (\<exists>svc. create_config_marathon self [app] = Inr [(frontend_name_of app, svc)] \<and>
             svc_partition svc = py_str (partition_label app)))"
proof (intro conjI impI)
  assume a: "''*'' \<notin> set (partitions self) \<and> partition_label app \<notin> Some ` set (partitions self)"
  then have "has_partition (partitions self) (partition_label app) = Inr False"
    by (cases "partition_label app") (auto simp: has_partition_total py_str_def truthy_def)
  then have ms: "marathon_service self app = Inr None"
    by (rule marathon_service_unmanaged)
  then show "create_config_marathon self [app] = Inr []"
    by (simp add: create_config_marathon_single)
  show "\<forall>xs ys. create_config_marathon self (xs @ app # ys) = create_config_marathon self (xs @ ys)"
    using create_config_marathon_skip [OF ms] by blast
next
  assume b: "''*'' \<in> set (partitions self) \<and> otherwise_valid self app"
  then obtain svc where "marathon_service self app = Inr (Some svc)"
    and "svc_name svc = frontend_name_of app" and "svc_partition svc = py_str (partition_label app)"
    using marathon_service_valid [of self app] by blast
  then show "\<exists>svc. create_config_marathon self [app] = Inr [(frontend_name_of app, svc)] \<and>
             svc_partition svc = py_str (partition_label app)"
    by (simp add: create_config_marathon_single)
qed

lemma example_valid: "otherwise_valid (example_controller ps) (example_app ''/app-b'' (Some ''dev''))"
  by (simp add: otherwise_valid_def example_controller_def example_app_def truthy_def
      is_label_data_valid_def get_protocol_def lower_def lower_char_def lbmethods_def
      has_healthCheck_def)

lemma example_name: "frontend_name_of (example_app ''/app-b'' p) = ''app-b_10.0.0.1_80''"
  by (simp add: frontend_name_of_def example_app_def truthy_def py_str_def lstrip_char_def
      string_of_int_def digit_char_def)

text \<open>
  The application of partition \<open>dev\<close>: no entry under the managed list \<open>[prod]\<close>, one under
  \<open>[*]\<close>.
\<close>

theorem partition_exclusion_policy_witness:
  "create_config_marathon (example_controller [''prod'']) [example_app ''/app-b'' (Some ''dev'')] = Inr [] \<and>
   map_sum id (map fst)
     (create_config_marathon (example_controller [''*'']) [example_app ''/app-b'' (Some ''dev'')])
     = Inr [''app-b_10.0.0.1_80'']"
proof -
  have p1: "''*'' \<notin> set (partitions (example_controller [''prod''])) \<and>
        partition_label (example_app ''/app-b'' (Some ''dev''))
          \<notin> Some ` set (partitions (example_controller [''prod'']))"
    by (simp add: example_controller_def example_app_def)
  have p2: "''*'' \<in> set (partitions (example_controller [''*'']))"
    by (simp add: example_controller_def)
  show ?thesis
    using partition_exclusion_policy
        [of "example_controller [''prod'']" "example_app ''/app-b'' (Some ''dev'')"]
      partition_exclusion_policy
        [of "example_controller [''*'']" "example_app ''/app-b'' (Some ''dev'')"]
      p1 p2 example_valid [of "[''*'']"] example_name [of "Some ''dev''"]
    by auto
qed



text \<open>
  Claim C6, amended.  \<open>tcp\<close> and \<open>http\<close>, in any letter case, derive \<open>tcp\<close>; \<open>udp\<close> derives \<open>udp\<close>;
  every other value derives no mode, and then a Marathon application that is not an iApp
  fails the validation of its labels and yields no entry in the configuration.
\<close>

theorem get_protocol_mapping:
  "get_protocol p =
     (if lower p = ''tcp'' \<or> lower p = ''http'' then Some ''tcp''
      else if lower p = ''udp'' then Some ''udp'' else None) \<and>
   (get_protocol (mode app) = None \<and> \<not> truthy (iapp app) \<longrightarrow>
      \<not> is_label_data_valid self app \<and> create_config_marathon self [app] = Inr [])"
proof (intro conjI impI)
  show "get_protocol p =
     (if lower p = ''tcp'' \<or> lower p = ''http'' then Some ''tcp''
      else if lower p = ''udp'' then Some ''udp'' else None)"
    by (simp add: get_protocol_def)
next
  assume a: "get_protocol (mode app) = None \<and> \<not> truthy (iapp app)"
  then show inv: "\<not> is_label_data_valid self app"
    by (simp add: is_label_data_valid_def)
  have "marathon_service self app = Inr None"
    using a inv by (simp add: marathon_service_def bind_r_def has_partition_total)
  then show "create_config_marathon self [app] = Inr []"
    by (simp add: create_config_marathon_single)
qed

text \<open>The mapping on four protocols, and an application with the protocol \<open>icmp\<close>.\<close>

theorem get_protocol_mapping_witness:
  "get_protocol ''TCP'' = Some ''tcp'' \<and> get_protocol ''http'' = Some ''tcp'' \<and>
   get_protocol ''udp'' = Some ''udp'' \<and> get_protocol ''icmp'' = None \<and>
   \<not> is_label_data_valid (example_controller [''*''])
       ((example_app ''/app-b'' (Some ''dev''))\<lparr>mode := ''icmp''\<rparr>) \<and>
   create_config_marathon (example_controller [''*''])
     [(example_app ''/app-b'' (Some ''dev''))\<lparr>mode := ''icmp''\<rparr>] = Inr []"
proof -
  have v: "get_protocol ''TCP'' = Some ''tcp'' \<and> get_protocol ''http'' = Some ''tcp'' \<and>
      get_protocol ''udp'' = Some ''udp'' \<and> get_protocol ''icmp'' = None"
    using get_protocol_mapping [of "''TCP''" undefined undefined]
      get_protocol_mapping [of "''http''" undefined undefined]
      get_protocol_mapping [of "''udp''" undefined undefined]
      get_protocol_mapping [of "''icmp''" undefined undefined]
    by (simp add: lower_def lower_char_def)
  then have "get_protocol (mode ((example_app ''/app-b'' (Some ''dev''))\<lparr>mode := ''icmp''\<rparr>)) = None \<and>
     \<not> truthy (iapp ((example_app ''/app-b'' (Some ''dev''))\<lparr>mode := ''icmp''\<rparr>))"
    by (simp add: example_app_def truthy_def)
  with v show ?thesis
    using get_protocol_mapping
      [of "''icmp''" "(example_app ''/app-b'' (Some ''dev''))\<lparr>mode := ''icmp''\<rparr>"
          "example_controller [''*'']"]
    by blast
qed

text \<open>
  The Kubernetes builder has no validation of the mode: a service with the protocol \<open>icmp\<close>
  enters the configuration, with no \<open>ipProtocol\<close>.
\<close>

lemma kubernetes_builder_keeps_invalid_mode:
  "get_protocol ''icmp'' = None \<and>
   map_sum id (map (\<lambda>(n, s). (n, svc_partition s, map_of (svc_virtual s) ''ipProtocol'', map fst (svc_nodes s))))
     (create_config_kubernetes (example_controller [''prod'']) [example_k8s_service ''icmp'']) =
   Inr [(''web_10.0.0.1_80'', ''prod'', Some PNone, [''10.2.0.1:30080'', ''10.2.0.2:30080''])]"
  by (simp add: create_config_kubernetes_def kubernetes_service_def example_controller_def
      example_k8s_service_def bind_r_def key_def has_partition_def truthy_def py_str_def Let_def
      strip_char_def string_of_int_def digit_char_def get_protocol_def lower_def lower_char_def
      opt_str_def mode_profiles_def k8s_nodes_def member_state_def)


lemma extends_ret: "extends (ret x)"
  by (simp add: extends_def ret_def)

lemma extends_throw: "extends (throw e)"
  by (simp add: extends_def throw_def)

lemma extends_query: "extends (query g)"
  by (simp add: extends_def query_def)

lemma extends_lift_r: "extends (lift_r v)"
  by (cases v) (simp_all add: lift_r_def extends_ret extends_throw)

lemma extends_not_none: "extends (not_none x)"
  by (cases x) (simp_all add: not_none_def extends_ret extends_throw)

lemma extends_issue: "extends (issue bigip c)"
  by (simp add: extends_def issue_def split: prod.splits)

lemma extends_and_then:
  assumes "extends m" and "\<And>a. extends (f a)"
  shows "extends (and_then m f)"
  unfolding extends_def
proof
  fix s
  from assms(1) obtain xs where xs: "snd (snd (m s)) = snd s @ xs"
    unfolding extends_def by blast
  show "\<exists>ys. snd (snd (and_then m f s)) = snd s @ ys"
  proof -
    obtain res s' where Pair: "m s = (res, s')"
      by (cases "m s") auto
    show ?thesis
    proof (cases res)
      case (Inl e)
      with Pair xs show ?thesis by (auto simp: and_then_def)
    next
      case (Inr a)
      from assms(2) [of a] obtain ys where "snd (snd (f a s')) = snd s' @ ys"
        unfolding extends_def by blast
      with Pair Inr xs show ?thesis by (auto simp: and_then_def)
    qed
  qed
qed

lemma extends_for_each:
  assumes "\<And>x. extends (f x)"
  shows "extends (for_each xs f)"
  by (induction xs) (simp_all add: extends_ret extends_and_then assms)

lemma extends_fold_each:
  assumes "\<And>x acc. extends (f x acc)"
  shows "extends (fold_each xs f acc)"
  by (induction xs arbitrary: acc) (simp_all add: extends_ret extends_and_then assms)

lemma staged_extends: "staged lo hi m \<Longrightarrow> extends m"
  unfolding staged_def extends_def by blast

lemma staged_silent:
  assumes "\<And>s. snd (snd (m s)) = snd s"
  shows "staged lo hi m"
  unfolding staged_def using assms by simp

lemma staged_ret: "staged lo hi (ret x)"
  by (rule staged_silent) (simp add: ret_def)

lemma staged_throw: "staged lo hi (throw e)"
  by (rule staged_silent) (simp add: throw_def)

lemma staged_query: "staged lo hi (query g)"
  by (rule staged_silent) (simp add: query_def)

lemma staged_lift_r: "staged lo hi (lift_r v)"
  by (cases v) (simp_all add: lift_r_def staged_ret staged_throw)

lemma staged_not_none: "staged lo hi (not_none x)"
  by (cases x) (simp_all add: not_none_def staged_ret staged_throw)

lemma staged_issue:
  assumes "lo \<le> phase c" and "phase c \<le> hi"
  shows "staged lo hi (issue bigip c)"
  unfolding staged_def
proof
  fix s
  have "snd (snd (issue bigip c s)) = snd s @ [c]"
    by (simp add: issue_def split: prod.splits)
  then show "\<exists>xs. snd (snd (issue bigip c s)) = snd s @ xs \<and> sorted (map phase xs) \<and>
                (\<forall>x \<in> set xs. lo \<le> phase x \<and> phase x \<le> hi)"
    using assms by auto
qed

lemma staged_weaken:
  assumes "staged lo' hi' m" and "lo \<le> lo'" and "hi' \<le> hi"
  shows "staged lo hi m"
  using assms unfolding staged_def by (meson order_trans)

lemma staged_and_then:
  assumes m: "staged lo mid m" and f: "\<And>a. staged mid hi (f a)"
    and le: "lo \<le> mid" "mid \<le> hi"
  shows "staged lo hi (and_then m f)"
  unfolding staged_def
proof
  fix s
  from m obtain xs where xs: "snd (snd (m s)) = snd s @ xs" "sorted (map phase xs)"
    "\<forall>x \<in> set xs. lo \<le> phase x \<and> phase x \<le> mid"
    unfolding staged_def by blast
  show "\<exists>zs. snd (snd (and_then m f s)) = snd s @ zs \<and> sorted (map phase zs) \<and>
                (\<forall>x \<in> set zs. lo \<le> phase x \<and> phase x \<le> hi)"
  proof -
    obtain res s' where Pair: "m s = (res, s')"
      by (cases "m s") auto
    show ?thesis
    proof (cases res)
      case (Inl e)
      with Pair have "snd (snd (and_then m f s)) = snd s @ xs"
        using xs(1) by (simp add: and_then_def)
      moreover have "\<forall>x \<in> set xs. lo \<le> phase x \<and> phase x \<le> hi"
        using xs(3) le by auto
      ultimately show ?thesis using xs(2) by blast
    next
      case (Inr a)
      from f [of a] obtain ys where ys: "snd (snd (f a s')) = snd s' @ ys" "sorted (map phase ys)"
        "\<forall>y \<in> set ys. mid \<le> phase y \<and> phase y \<le> hi"
        unfolding staged_def by blast
      have eq: "snd (snd (and_then m f s)) = snd s @ (xs @ ys)"
        using Pair Inr xs(1) ys(1) by (simp add: and_then_def)
      have "sorted (map phase (xs @ ys))"
        using xs(2,3) ys(2,3) by (fastforce simp: sorted_append)
      moreover have "\<forall>x \<in> set (xs @ ys). lo \<le> phase x \<and> phase x \<le> hi"
        using xs(3) ys(3) le by fastforce
      ultimately show ?thesis using eq by blast
    qed
  qed
qed

lemma staged_same:
  assumes "staged k k m" and "\<And>a. staged k k (f a)"
  shows "staged k k (and_then m f)"
  using assms by (rule staged_and_then) simp_all

lemma staged_for_each:
  assumes "\<And>x. staged k k (f x)"
  shows "staged k k (for_each xs f)"
  by (induction xs) (simp_all add: staged_ret staged_same assms)

lemma staged_fold_each:
  assumes "\<And>x acc. staged k k (f x acc)"
  shows "staged k k (fold_each xs f acc)"
  by (induction xs arbitrary: acc) (simp_all add: staged_ret staged_same assms)

lemmas staged_basic =
  staged_ret staged_throw staged_query staged_lift_r staged_not_none staged_same
  staged_for_each staged_fold_each staged_issue

lemma staged_get_partitions: "staged k k (get_partitions bigip ps)"
  by (simp add: get_partitions_def staged_basic)

lemma staged_get_iapp_list: "staged k k (get_iapp_list bigip part)"
  by (simp add: get_iapp_list_def staged_basic)

lemma staged_get_pool: "staged k k (get_pool bigip part n)"
  by (simp add: get_pool_def staged_basic)

lemma staged_get_pool_list: "staged k k (get_pool_list bigip part)"
  by (simp add: get_pool_list_def staged_basic)

lemma staged_get_virtual_list: "staged k k (get_virtual_list bigip part)"
  by (simp add: get_virtual_list_def staged_basic)

lemma staged_get_healthcheck_list: "staged k k (get_healthcheck_list bigip part)"
  by (simp add: get_healthcheck_list_def staged_basic)

lemma staged_get_node_list: "staged k k (get_node_list bigip part)"
  by (simp add: get_node_list_def staged_basic)

lemma staged_get_pool_member_list: "staged k k (get_pool_member_list bigip part n)"
  by (simp add: get_pool_member_list_def staged_basic staged_get_pool)

lemma staged_get_member: "staged k k (get_member bigip part n m)"
  by (simp add: get_member_def staged_basic staged_get_pool)

lemma staged_get_node: "staged k k (get_node bigip part n)"
  by (simp add: get_node_def staged_basic)

lemma staged_get_healthcheck: "staged k k (get_healthcheck bigip part n t)"
  by (simp add: get_healthcheck_def staged_basic)

lemma staged_get_virtual_address: "staged k k (get_virtual_address bigip part a)"
  by (simp add: get_virtual_address_def staged_basic)

lemma staged_get_virtual_profiles: "staged k k (get_virtual_profiles bigip v)"
  by (simp add: get_virtual_profiles_def staged_basic)

lemma staged_iapp_delete: "staged 0 0 (iapp_delete bigip part n)"
  by (simp add: iapp_delete_def get_iapp_def staged_basic)

lemma staged_iapp_create: "staged 1 1 (iapp_create bigip part n svc)"
  by (simp add: iapp_create_def staged_basic)

lemma staged_iapp_update: "staged 2 2 (iapp_update bigip part n svc)"
  by (simp add: iapp_update_def get_iapp_def staged_basic)

lemma staged_virtual_delete: "staged 3 3 (virtual_delete bigip part n)"
  by (simp add: virtual_delete_def get_virtual_def staged_basic)

lemma staged_pool_delete: "staged 4 4 (pool_delete bigip part n)"
  by (simp add: pool_delete_def staged_basic staged_get_pool)

lemma staged_healthcheck_delete: "staged 5 5 (healthcheck_delete bigip part n t)"
  by (simp add: healthcheck_delete_def staged_basic staged_get_healthcheck)

lemma staged_healthcheck_create: "staged 6 6 (healthcheck_create bigip part d)"
  by (simp add: healthcheck_create_def staged_basic)

lemma staged_pool_create: "staged 7 7 (pool_create bigip part n svc)"
  by (simp add: pool_create_def staged_basic)

lemma staged_virtual_create: "staged 8 8 (virtual_create bigip part n svc)"
  by (simp add: virtual_create_def staged_basic)

lemma staged_healthcheck_update: "staged 9 9 (healthcheck_update bigip part n d)"
  by (simp add: healthcheck_update_def Let_def staged_basic staged_get_healthcheck)

lemma staged_pool_update: "staged 10 10 (pool_update bigip part n svc)"
  by (simp add: pool_update_def staged_basic staged_get_pool)

lemma staged_virtual_address_update: "staged 11 11 (virtual_address_update bigip a)"
  by (simp add: virtual_address_update_def staged_basic)

lemma staged_virtual_update: "staged 11 11 (virtual_update bigip part n svc)"
  by (simp add: virtual_update_def Let_def virtual_address_create_def get_virtual_def
      staged_basic staged_get_virtual_address staged_get_virtual_profiles
      staged_virtual_address_update split: option.split)

lemma staged_member_delete: "staged 12 12 (member_delete bigip part p m)"
  by (simp add: member_delete_def staged_basic staged_get_member)

lemma staged_member_create: "staged 12 12 (member_create bigip part p m d)"
  by (simp add: member_create_def staged_basic staged_get_pool)

lemma staged_member_update: "staged 12 12 (member_update bigip part p m d)"
  by (simp add: member_update_def staged_basic staged_get_member)

lemma staged_configure_members: "staged 12 12 (configure_members bigip cfg part p)"
  by (simp add: configure_members_def Let_def staged_basic staged_get_pool_member_list
      staged_member_delete staged_member_create staged_member_update)

lemma staged_cleanup_member: "staged 13 13 (cleanup_member bigip part m nodes)"
  by (simp add: cleanup_member_def Let_def staged_basic staged_get_node split: list.split)

lemma staged_node_delete: "staged 14 14 (node_delete bigip n part)"
  by (simp add: node_delete_def staged_basic)

lemma staged_block:
  assumes "\<And>x. staged k k (f x)" and "\<And>a. staged k hi (g a)" and "lo \<le> k" and "k \<le> hi"
  shows "staged lo hi (and_then (for_each xs f) g)"
proof -
  have "staged k k (for_each xs f)"
    using assms(1) by (rule staged_for_each)
  then have "staged lo k (for_each xs f)"
    using assms(3) by (rule staged_weaken) simp
  then show ?thesis
    using assms(2) assms(3) assms(4) by (rule staged_and_then)
qed

lemma staged_read:
  assumes "staged lo lo m" and "\<And>a. staged lo hi (g a)" and "lo \<le> hi"
  shows "staged lo hi (and_then m g)"
  using assms(1) assms(2) _ assms(3) by (rule staged_and_then) simp

lemma staged_last:
  assumes "\<And>x. staged k k (f x)" and "lo \<le> k" and "k \<le> hi"
  shows "staged lo hi (for_each xs f)"
  using staged_for_each [of k f xs, OF assms(1)] assms(2,3) by (rule staged_weaken)

lemma staged_lookup:
  assumes "\<And>v. staged k k (f v)"
  shows "staged k k (and_then (lift_r r) f)"
  using staged_lift_r assms by (rule staged_same)

lemma staged_configure_iapps: "staged 0 2 (configure_iapps bigip cfg part iapps)"
  unfolding configure_iapps_def
  apply (rule staged_read [OF staged_get_iapp_list])
   apply (rule staged_block [where k = 0])
      apply (rule staged_iapp_delete)
     apply (rule staged_block [where k = 1])
        apply (rule staged_lookup, rule staged_iapp_create)
       apply (rule staged_last [where k = 2])
         apply (rule staged_lookup, rule staged_iapp_update)
        apply simp_all
  done

lemma staged_cleanup_nodes: "staged 13 14 (cleanup_nodes bigip part)"
  unfolding cleanup_nodes_def
  apply (rule staged_read [OF staged_get_node_list])
   apply (rule staged_read [OF staged_get_pool_list])
    apply (rule staged_and_then [where mid = 13])
       apply (rule staged_fold_each, rule staged_same, rule staged_get_pool_member_list, rule staged_fold_each, rule staged_cleanup_member)
      apply (rule staged_last [where k = 14])
        apply (rule staged_node_delete)
       apply simp_all
  done

lemma staged_configure_resources:
  "staged 2 14 (configure_resources bigip cfg part vl pl il)"
  unfolding configure_resources_def Let_def
  apply (rule staged_read [OF staged_get_pool_list])
     apply (rule staged_read [OF staged_get_virtual_list])
      apply (rule staged_read [OF staged_get_healthcheck_list])
       apply (rule staged_block [where k = 3])
          apply (rule staged_virtual_delete)
         apply (rule staged_block [where k = 4])
            apply (rule staged_pool_delete)
           apply (rule staged_block [where k = 5])
              apply (rule staged_lookup, rule staged_healthcheck_delete)
             apply (rule staged_block [where k = 6])
                apply (rule staged_lookup, rule staged_for_each, rule staged_healthcheck_create)
               apply (rule staged_block [where k = 7])
                  apply (rule staged_lookup, rule staged_pool_create)
                 apply (rule staged_block [where k = 8])
                    apply (rule staged_lookup, rule staged_virtual_create)
                   apply (rule staged_block [where k = 9])
                      apply (rule staged_lookup, rule staged_for_each, rule staged_healthcheck_update)
                     apply (rule staged_block [where k = 10])
                        apply (rule staged_lookup, rule staged_pool_update)
                       apply (rule staged_block [where k = 11])
                          apply (rule staged_lookup, rule staged_virtual_update)
                         apply (rule staged_block [where k = 12])
                            apply (rule staged_configure_members)
                           apply (rule staged_weaken [OF staged_cleanup_nodes])
                            apply simp_all
  done

lemma staged_apply_partition: "staged 0 14 (apply_partition bigip cfg part)"
  unfolding apply_partition_def Let_def
  by (rule staged_and_then [where mid = 2])
    (simp_all add: staged_configure_iapps staged_configure_resources)

lemma issued_by_staged:
  assumes "staged lo hi m"
  shows "snd (snd (m s)) = snd s @ issued_by m s \<and> sorted (map phase (issued_by m s))"
proof -
  from assms obtain xs where "snd (snd (m s)) = snd s @ xs" "sorted (map phase xs)"
    unfolding staged_def by blast
  then show ?thesis by (simp add: issued_by_def)
qed

lemma phase_order_monitor_pool:
  assumes "phase a \<le> phase b"
  shows "\<not> (pool_create_or_update a \<and> monitor_delete_or_create b) \<and>
         \<not> (monitor_delete_or_create a \<and> pool_delete_op b)"
  using assms by (cases a; cases b) simp_all

text \<open>
  Claim C2, amended.  In the calls issued by the pass over one partition, from any state of
  the BIG-IP, the phases never decrease: in particular no creation or update of a pool
  precedes a deletion or creation of a health monitor, and no deletion or creation of a
  health monitor precedes a deletion of a pool (the pools are deleted first).
\<close>

theorem monitor_before_pool_create_update:
  "snd (snd (apply_partition bigip cfg part s)) =
     snd s @ issued_by (apply_partition bigip cfg part) s \<and>
   sorted (map phase (issued_by (apply_partition bigip cfg part) s)) \<and>
   sorted_wrt (\<lambda>a b. \<not> (pool_create_or_update a \<and> monitor_delete_or_create b) \<and>
                     \<not> (monitor_delete_or_create a \<and> pool_delete_op b))
     (issued_by (apply_partition bigip cfg part) s)"
proof -
  let ?xs = "issued_by (apply_partition bigip cfg part) s"
  have st: "snd (snd (apply_partition bigip cfg part s)) = snd s @ ?xs \<and> sorted (map phase ?xs)"
    using staged_apply_partition by (rule issued_by_staged)
  then have "sorted_wrt (\<lambda>a b. phase a \<le> phase b) ?xs"
    by (simp add: sorted_map)
  then have "sorted_wrt (\<lambda>a b. \<not> (pool_create_or_update a \<and> monitor_delete_or_create b) \<and>
                     \<not> (monitor_delete_or_create a \<and> pool_delete_op b)) ?xs"
    by (rule sorted_wrt_mono_rel [rotated]) (rule phase_order_monitor_pool)
  with st show ?thesis by blast
qed

lemma stale_run:
  "issued_by (apply_partition (snapshot_bigip stale_pool_and_monitor) [] ''prod'') ((), []) =
     [PoolDelete (resource ''prod'' ''old''), MonitorDelete (resource ''prod'' ''old'')]"
  by code_simp

text \<open>
  Claim C2, as stated: no pool operation precedes a deletion or creation of a health monitor.
  On a partition that holds a pool and a monitor which the configuration no longer has, the
  pool is deleted before the monitor.
\<close>

theorem pool_delete_before_monitor_delete_counterexample:
  "issued_by (apply_partition (snapshot_bigip stale_pool_and_monitor) [] ''prod'') ((), []) =
     [PoolDelete (resource ''prod'' ''old''), MonitorDelete (resource ''prod'' ''old'')] \<and>
   \<not> sorted_wrt (\<lambda>a b. \<not> (pool_operation a \<and> monitor_delete_or_create b))
        (issued_by (apply_partition (snapshot_bigip stale_pool_and_monitor) [] ''prod'') ((), []))"
  by (simp add: stale_run pool_operation_def)

lemma extends_issued:
  assumes "extends m"
  shows "snd (snd (m s)) = snd s @ issued_by m s"
proof -
  from assms obtain xs where "snd (snd (m s)) = snd s @ xs"
    unfolding extends_def by blast
  then show ?thesis by (simp add: issued_by_def)
qed

lemma and_then_success:
  assumes "fst (and_then m g s) = Inr v"
  shows "\<exists>a s1. m s = (Inr a, s1) \<and> and_then m g s = g a s1"
proof -
  obtain res s1 where ms: "m s = (res, s1)"
    by (cases "m s") auto
  show ?thesis
  proof (cases res)
    case (Inl e)
    with ms assms show ?thesis by (simp add: and_then_def)
  next
    case (Inr a)
    with ms show ?thesis by (simp add: and_then_def)
  qed
qed

lemma issued_and_then:
  assumes m: "extends m" and g: "extends (g a)" and ms: "m s = (Inr a, s1)"
  shows "issued_by (and_then m g) s = issued_by m s @ issued_by (g a) s1"
proof -
  have 1: "snd s1 = snd s @ issued_by m s"
    using extends_issued [OF m, of s] ms by simp
  have 2: "snd (snd (g a s1)) = snd s1 @ issued_by (g a) s1"
    using g by (rule extends_issued)
  have "and_then m g s = g a s1"
    using ms by (simp add: and_then_def)
  then have "snd (snd (and_then m g s)) = snd s @ issued_by m s @ issued_by (g a) s1"
    using 1 2 by simp
  then show ?thesis
    by (simp add: issued_by_def)
qed









lemma deployed_iapp_issued:
  "issued_by (apply_partition (snapshot_bigip deployed_iapp)
                  [(''web_iapp_80'', example_iapp_service)] ''prod'') ((), []) =
   [ServiceUpdate (resource ''prod'' ''web_iapp_80'') ''web_iapp_80'' ''prod''
      [PDict [(''name'', PStr ''net__server_mode''), (''value'', PStr ''lan'')]]
      [PDict [(''columnNames'', PList [PStr ''addr'', PStr ''port'', PStr ''connection_limit'']),
              (''name'', PStr ''pool__members''),
              (''rows'', PList [PDict [(''row'', PList [PStr ''10.1.0.1'', PStr ''8080'', PStr ''0''])],
                               PDict [(''row'', PList [PStr ''10.1.0.2'', PStr ''8080'', PStr ''0''])]])]]
      [(''description'', PStr ''web'')]]"
  by code_simp

lemma extends_apply_config: "extends (apply_config bigip self cfg)"
  unfolding apply_config_def
  by (rule extends_and_then, rule staged_extends [OF staged_get_partitions],
      rule extends_for_each, rule staged_extends [OF staged_apply_partition])

lemma extends_reconcile: "extends (reconcile bigip self cs)"
  unfolding reconcile_def
  by (rule extends_and_then, rule extends_lift_r, rule extends_apply_config)

text \<open>
  Claim C4.  \<^verbatim>\<open>regenerate_config_f5\<close> returns \<^verbatim>\<open>True\<close> exactly when the pass raises a connection
  error, an SDK error, an invalid-URL error or an unexpected-HTTP-status error; it returns
  \<^verbatim>\<open>False\<close> exactly when the pass completes; any other exception is raised again.  In each
  case the BIG-IP and the calls issued are left as the pass left them: nothing is undone,
  and the calls issued before only got more.
\<close>

theorem regenerate_retry_signal:
  "snd (regenerate_config_f5 bigip self cs s) = snd (reconcile bigip self cs s) \<and>
   (fst (regenerate_config_f5 bigip self cs s) = Inr True \<longleftrightarrow>
      (\<exists>e. fst (reconcile bigip self cs s) = Inl e \<and> retry_requested e)) \<and>
   (fst (regenerate_config_f5 bigip self cs s) = Inr False \<longleftrightarrow>
      fst (reconcile bigip self cs s) = Inr ()) \<and>
   (fst (regenerate_config_f5 bigip self cs s) = Inl e \<longleftrightarrow>
      fst (reconcile bigip self cs s) = Inl e \<and> \<not> retry_requested e) \<and>
   (\<exists>xs. snd (snd (regenerate_config_f5 bigip self cs s)) = snd s @ xs)"
proof -
  obtain res s' where r: "reconcile bigip self cs s = (res, s')"
    by (cases "reconcile bigip self cs s") auto
  have ext: "\<exists>xs. snd s' = snd s @ xs"
    using extends_reconcile [of bigip self cs] r unfolding extends_def by (metis snd_conv)
  show ?thesis
  proof (cases res)
    case (Inr u)
    with r ext show ?thesis
      by (simp add: regenerate_config_f5_def catch_def and_then_def ret_def)
  next
    case (Inl x)
    with r ext show ?thesis
      by (cases x)
        (auto simp: regenerate_config_f5_def catch_def and_then_def ret_def throw_def
          retry_requested_def)
  qed
qed

lemma refused_run:
  "reconcile (snapshot_bigip monitor_delete_refused) (example_controller [''prod''])
      (MarathonApps []) ((), []) =
    (Inl ConnectionError,
     ((), [PoolDelete (resource ''prod'' ''old''), MonitorDelete (resource ''prod'' ''old'')]))"
  by code_simp


text \<open>
  A pass in which the deletion of a monitor meets a connection error after a pool was
  deleted: the retry signal is returned, and the deletion of the pool stays issued.
\<close>

theorem regenerate_retry_signal_witness:
  "regenerate_config_f5 (snapshot_bigip monitor_delete_refused) (example_controller [''prod''])
      (MarathonApps []) ((), []) =
    (Inr True,
     ((), [PoolDelete (resource ''prod'' ''old''), MonitorDelete (resource ''prod'' ''old'')]))"
proof -
  let ?g = "regenerate_config_f5 (snapshot_bigip monitor_delete_refused)
      (example_controller [''prod'']) (MarathonApps []) ((), [])"
  note t = regenerate_retry_signal
      [of "snapshot_bigip monitor_delete_refused" "example_controller [''prod'']"
          "MarathonApps []" "((), [])" ConnectionError]
  have "fst ?g = Inr True"
    using t by (simp add: refused_run retry_requested_def)
  moreover have "snd ?g =
      ((), [PoolDelete (resource ''prod'' ''old''), MonitorDelete (resource ''prod'' ''old'')])"
    using t by (simp add: refused_run)
  ultimately show ?thesis
    by (simp add: prod_eq_iff)
qed

text \<open>
  Claim C3.  After the sweep of the nodes of a partition, a node is deleted exactly when no
  member of a pool of the partition refers to it.  The code does not keep this where two
  partitions hold a pool of the same name: the sweep over partition \<open>prod\<close> lists the pool
  \<open>web\<close> of the partition, whose member \<open>10.0.0.1:80\<close> refers to the node \<open>10.0.0.1\<close>; but the
  members it reads are those of the pool \<open>web\<close> of the other partition, which \<open>get_pool\<close>
  finds first, and the node is deleted.
\<close>

theorem cleanup_nodes_same_name_pools:
  "cleanup_nodes (snapshot_bigip same_name_pools) ''prod'' ((), []) =
     (Inr (), ((), [NodeDelete \<lparr> o_name = ''10.0.0.1'', o_partition = ''prod'',
                                 o_attrs = [(''state'', PStr ''unchecked''),
                                            (''session'', PStr ''user-enabled'')] \<rparr>])) \<and>
   get_pool_list (snapshot_bigip same_name_pools) ''prod'' ((), []) = (Inr [''web''], ((), [])) \<and>
   members_get_collection (snapshot_bigip same_name_pools) (resource ''prod'' ''web'') () =
     Inr [resource ''prod'' ''10.0.0.1:80''] \<and>
   get_pool_member_list (snapshot_bigip same_name_pools) ''prod'' ''web'' ((), []) =
     (Inr [''10.0.0.9:80''], ((), []))"
  by code_simp

text \<open>
  The rest of this section shows that the search by name is all that stands between the
  sweep and what is expected of it.  First the reads on a snapshot, and one step of the sweep.
\<close>

lemma snap_get_node_list:
  "get_node_list (snapshot_bigip snap) part s = (Inr (names_in part (snap_nodes snap)), s)"
  by (simp add: get_node_list_def and_then_def query_def ret_def snapshot_bigip_def)

lemma snap_get_pool_list:
  "get_pool_list (snapshot_bigip snap) part s = (Inr (names_in part (snap_pools snap)), s)"
  by (simp add: get_pool_list_def and_then_def query_def ret_def snapshot_bigip_def)

lemma snap_get_pool_member_list:
  "get_pool_member_list (snapshot_bigip snap) part pn s =
     (case find (\<lambda>p. o_name p = pn) (snap_pools snap) of
        None \<Rightarrow> (Inl AttributeError, s)
      | Some p \<Rightarrow> (Inr (map o_name (members_of snap p)), s))"
  by (simp add: get_pool_member_list_def get_pool_def and_then_def query_def ret_def throw_def
      not_none_def snapshot_bigip_def members_of_def split: option.splits)

lemma snap_get_node:
  "get_node (snapshot_bigip snap) part n s =
     (Inr (case load_from (snap_nodes snap) n part of Inl e \<Rightarrow> None | Inr nd \<Rightarrow> Some nd), s)"
  by (auto simp: get_node_def and_then_def query_def ret_def snapshot_bigip_def load_from_def
      split: option.splits)

lemma cleanup_member_step:
  assumes "fst (cleanup_member (snapshot_bigip snap) part m nl s) = Inr nl'"
  shows "sweep_step snap part m nl nl' (issued_by (cleanup_member (snapshot_bigip snap) part m nl) s)"
proof -
  from assms obtain n p where sp: "split_on CHR '':'' m = [n, p]"
    by (auto simp: cleanup_member_def throw_def split: list.splits)
  show ?thesis
  proof (cases "n \<in> set nl")
    case False
    with assms sp show ?thesis
      by (simp add: cleanup_member_def sweep_step_def ret_def issued_by_def)
  next
    case True
    let ?B = "snapshot_bigip snap"
    have cm: "cleanup_member ?B part m nl s =
        and_then (not_none (case load_from (snap_nodes snap) n part of Inl e \<Rightarrow> None | Inr nd \<Rightarrow> Some nd))
          (\<lambda>node. and_then (lift_r (up_and_enabled node)) (\<lambda>ok.
             if ok then ret (remove1 n nl)
             else and_then (issue ?B (NodeModify node member_state)) (\<lambda>_. ret (remove1 n nl)))) s"
      using sp True by (simp add: cleanup_member_def Let_def and_then_def snap_get_node)
    show ?thesis
    proof (cases "load_from (snap_nodes snap) n part")
      case (Inl e)
      with cm assms show ?thesis
        by (simp add: and_then_def not_none_def throw_def)
    next
      case (Inr node)
      show ?thesis
      proof (cases "up_and_enabled node")
        case (Inl e)
        with cm assms Inr show ?thesis
          by (simp add: and_then_def not_none_def throw_def ret_def lift_r_def)
      next
        case ok: (Inr ok)
        show ?thesis
        proof (cases ok)
          case True
          with cm ok Inr have "cleanup_member ?B part m nl s = (Inr (remove1 n nl), s)"
            by (simp add: and_then_def not_none_def ret_def lift_r_def)
          with assms sp \<open>n \<in> set nl\<close> Inr ok True show ?thesis
            by (auto simp: sweep_step_def issued_by_def)
        next
          case False
          with cm ok Inr have run: "cleanup_member ?B part m nl s =
              and_then (issue ?B (NodeModify node member_state)) (\<lambda>_. ret (remove1 n nl)) s"
            by (simp add: and_then_def not_none_def ret_def lift_r_def)
          have "snd (snd (cleanup_member ?B part m nl s)) = snd s @ [NodeModify node member_state]"
            unfolding run by (simp add: and_then_def issue_def ret_def split: prod.splits sum.splits)
          then have iss: "issued_by (cleanup_member ?B part m nl) s = [NodeModify node member_state]"
            by (simp add: issued_by_def)
          have "nl' = remove1 n nl"
            using assms unfolding run
            by (simp add: and_then_def issue_def ret_def split: prod.splits sum.splits)
          with sp \<open>n \<in> set nl\<close> Inr ok False iss show ?thesis
            by (auto simp: sweep_step_def)
        qed
      qed
    qed
  qed
qed

lemma fold_each_steps:
  assumes ext: "\<And>x acc. extends (f x acc)"
    and step: "\<And>x acc s acc'. fst (f x acc s) = Inr acc' \<Longrightarrow> P x acc acc' (issued_by (f x acc) s)"
  shows "fst (fold_each xs f acc s) = Inr r \<Longrightarrow>
         steps P xs acc r (issued_by (fold_each xs f acc) s)"
proof (induction xs arbitrary: acc s)
  case Nil
  then show ?case
    by (simp add: ret_def issued_by_def steps_Nil)
next
  case (Cons x xs)
  let ?g = "\<lambda>acc'. fold_each xs f acc'"
  from Cons.prems have ok: "fst (and_then (f x acc) ?g s) = Inr r"
    by simp
  from and_then_success [OF ok] obtain a s1 where
    fx: "f x acc s = (Inr a, s1)" and rest: "and_then (f x acc) ?g s = ?g a s1"
    by blast
  have iss: "issued_by (and_then (f x acc) ?g) s = issued_by (f x acc) s @ issued_by (?g a) s1"
    using ext [of x acc] extends_fold_each [of f xs a, OF ext] fx by (rule issued_and_then)
  have "P x acc a (issued_by (f x acc) s)"
    using fx by (intro step) simp
  moreover have "steps P xs a r (issued_by (fold_each xs f a) s1)"
    using ok rest by (intro Cons.IH) simp
  ultimately have "steps P (x # xs) acc r (issued_by (f x acc) s @ issued_by (fold_each xs f a) s1)"
    by (rule steps_Cons)
  then show ?case
    using iss by simp
qed

lemma steps_append:
  assumes "steps P xs a b ops" and "steps P ys b c ops'"
  shows "steps P (xs @ ys) a c (ops @ ops')"
  using assms by (induction rule: steps.induct) (auto intro: steps.intros)

lemma steps_concat:
  assumes "steps (\<lambda>x. steps P (g x)) xs a b ops"
  shows "steps P (concat (map g xs)) a b ops"
  using assms
proof (induction rule: steps.induct)
  case (steps_Nil acc)
  show ?case by (simp add: steps.steps_Nil)
next
  case (steps_Cons x acc acc' ops xs r ops')
  then show ?case by (simp add: steps_append)
qed

lemma for_each_single:
  assumes ext: "\<And>x. extends (f x)"
    and one: "\<And>x s v. fst (f x s) = Inr v \<Longrightarrow> \<exists>c. issued_by (f x) s = [c] \<and> R x c"
  shows "fst (for_each xs f s) = Inr u \<Longrightarrow> list_all2 R xs (issued_by (for_each xs f) s)"
proof (induction xs arbitrary: s)
  case Nil
  then show ?case by (simp add: ret_def issued_by_def)
next
  case (Cons x xs)
  let ?g = "\<lambda>_. for_each xs f"
  from Cons.prems have ok: "fst (and_then (f x) ?g s) = Inr u"
    by simp
  from and_then_success [OF ok] obtain a s1 where
    fx: "f x s = (Inr a, s1)" and rest: "and_then (f x) ?g s = for_each xs f s1"
    by blast
  have iss: "issued_by (and_then (f x) ?g) s = issued_by (f x) s @ issued_by (for_each xs f) s1"
    using issued_and_then [of "f x" ?g a s s1] ext extends_for_each [of f xs, OF ext] fx by simp
  from one [of x s a] fx obtain c where c: "issued_by (f x) s = [c]" "R x c"
    by auto
  have "list_all2 R xs (issued_by (for_each xs f) s1)"
    using ok rest by (intro Cons.IH) simp
  with c iss show ?case by simp
qed

lemma load_from_name:
  assumes "load_from objs n p = Inr x"
  shows "o_name x = n"
  using assms by (auto simp: load_from_def find_Some_iff split: option.splits)

lemma sweep_step_facts:
  assumes "sweep_step snap part m nl nl' ops" and "distinct nl"
  shows "distinct nl' \<and> set nl' = set nl - {node_name_of m} \<and>
         set (concat (map node_modified ops)) =
           {x \<in> set nl \<inter> {node_name_of m}. needs_enable snap part x} \<and>
         concat (map node_deleted ops) = []"
proof -
  from assms(1) obtain n p where sp: "split_on CHR '':'' m = [n, p]"
    and body: "if n \<in> set nl then
           nl' = remove1 n nl \<and>
           (\<exists>node ok. load_from (snap_nodes snap) n part = Inr node \<and> up_and_enabled node = Inr ok \<and>
              ops = (if ok then [] else [NodeModify node member_state]))
         else nl' = nl \<and> ops = []"
    unfolding sweep_step_def by blast
  have nm: "node_name_of m = n"
    using sp by (simp add: node_name_of_def)
  show ?thesis
  proof (cases "n \<in> set nl")
    case False
    with body nm assms(2) show ?thesis by auto
  next
    case True
    with body obtain node ok where nl': "nl' = remove1 n nl"
      and ld: "load_from (snap_nodes snap) n part = Inr node"
      and ok: "up_and_enabled node = Inr ok"
      and ops: "ops = (if ok then [] else [NodeModify node member_state])"
      by auto
    have name: "o_name node = n"
      using ld by (rule load_from_name)
    have ne: "needs_enable snap part n \<longleftrightarrow> \<not> ok"
      using ld ok by (simp add: needs_enable_def)
    show ?thesis
      using True nl' ops name ne nm assms(2) by auto
  qed
qed

lemma sweep_steps_facts:
  assumes "steps (sweep_step snap part) ms nl nl' ops"
  shows "distinct nl \<Longrightarrow>
         distinct nl' \<and> set nl' = set nl - node_name_of ` set ms \<and>
         set (concat (map node_modified ops)) =
           {x \<in> set nl \<inter> node_name_of ` set ms. needs_enable snap part x} \<and>
         concat (map node_deleted ops) = []"
  using assms
proof (induction rule: steps.induct)
  case (steps_Nil acc)
  then show ?case by simp
next
  case (steps_Cons m acc acc' ops xs r ops')
  from sweep_step_facts [OF steps_Cons.hyps(1) steps_Cons.prems]
  have 1: "distinct acc'" and 2: "set acc' = set acc - {node_name_of m}"
    and 3: "set (concat (map node_modified ops)) =
           {x \<in> set acc \<inter> {node_name_of m}. needs_enable snap part x}"
    and 4: "concat (map node_deleted ops) = []"
    by blast+
  from steps_Cons.IH [OF 1]
  have 5: "distinct r" and 6: "set r = set acc' - node_name_of ` set xs"
    and 7: "set (concat (map node_modified ops')) =
           {x \<in> set acc' \<inter> node_name_of ` set xs. needs_enable snap part x}"
    and 8: "concat (map node_deleted ops') = []"
    by blast+
  have "set r = set acc - node_name_of ` set (m # xs)"
    using 2 6 by auto
  moreover have "set (concat (map node_modified (ops @ ops'))) =
           {x \<in> set acc \<inter> node_name_of ` set (m # xs). needs_enable snap part x}"
    using 2 3 7 by auto
  moreover have "concat (map node_deleted (ops @ ops')) = []"
    using 4 8 by simp
  ultimately show ?case
    using 5 by blast
qed

lemma pool_sweep_steps:
  assumes "fst (and_then (get_pool_member_list (snapshot_bigip snap) part pn)
                 (\<lambda>ml. fold_each ml (cleanup_member (snapshot_bigip snap) part) nl) s) = Inr nl'"
  shows "steps (sweep_step snap part) (found_members snap pn) nl nl'
           (issued_by (and_then (get_pool_member_list (snapshot_bigip snap) part pn)
                 (\<lambda>ml. fold_each ml (cleanup_member (snapshot_bigip snap) part) nl)) s)"
proof -
  let ?B = "snapshot_bigip snap"
  let ?F = "and_then (get_pool_member_list ?B part pn) (\<lambda>ml. fold_each ml (cleanup_member ?B part) nl)"
  show ?thesis
  proof (cases "find (\<lambda>p. o_name p = pn) (snap_pools snap)")
    case None
    then have "?F s = (Inl AttributeError, s)"
      by (simp add: and_then_def snap_get_pool_member_list)
    with assms show ?thesis by simp
  next
    case (Some p)
    let ?ml = "map o_name (members_of snap p)"
    have run: "?F s = fold_each ?ml (cleanup_member ?B part) nl s"
      using Some by (simp add: and_then_def snap_get_pool_member_list)
    then have iss: "issued_by ?F s = issued_by (fold_each ?ml (cleanup_member ?B part) nl) s"
      by (simp add: issued_by_def)
    have "steps (sweep_step snap part) ?ml nl nl'
            (issued_by (fold_each ?ml (cleanup_member ?B part) nl) s)"
    proof (rule fold_each_steps)
      show "extends (cleanup_member ?B part x acc)" for x acc
        by (rule staged_extends [OF staged_cleanup_member])
      show "sweep_step snap part x acc acc' (issued_by (cleanup_member ?B part x acc) s')"
        if "fst (cleanup_member ?B part x acc s') = Inr acc'" for x acc s' acc'
        using that by (rule cleanup_member_step)
      show "fst (fold_each ?ml (cleanup_member ?B part) nl s) = Inr nl'"
        using assms run by simp
    qed
    then show ?thesis
      using iss Some by (simp add: found_members_def)
  qed
qed

lemma found_members_unambiguous:
  assumes "lookup_unambiguous snap part"
  shows "concat (map (found_members snap) (names_in part (snap_pools snap))) =
         partition_members snap part"
proof -
  have "found_members snap (o_name p) = map o_name (members_of snap p)"
    if "p \<in> set (snap_pools snap)" and "o_partition p = part" for p
    using assms that by (simp add: lookup_unambiguous_def list_all_iff found_members_def)
  then have "map (found_members snap) (names_in part (snap_pools snap)) =
      map (\<lambda>p. map o_name (members_of snap p))
        (filter (\<lambda>p. o_partition p = part) (snap_pools snap))"
    by (simp add: names_in_def)
  then show ?thesis
    by (simp add: partition_members_def)
qed

lemma node_delete_single:
  assumes "fst (node_delete (snapshot_bigip snap) n part s) = Inr v"
  shows "\<exists>c. issued_by (node_delete (snapshot_bigip snap) n part) s = [c] \<and> node_deleted c = [n] \<and>
             node_modified c = []"
proof -
  let ?B = "snapshot_bigip snap"
  from and_then_success [OF assms [unfolded node_delete_def]] obtain x s1 where
    ld: "query (node_load ?B n part) s = (Inr x, s1)"
    and run: "node_delete ?B n part s = issue ?B (NodeDelete x) s1"
    unfolding node_delete_def by blast
  have "s1 = s" and "load_from (snap_nodes snap) n part = Inr x"
    using ld by (auto simp: query_def snapshot_bigip_def)
  then have "o_name x = n" and "snd (snd (node_delete ?B n part s)) = snd s @ [NodeDelete x]"
    using run by (auto simp: load_from_name issue_def split: prod.splits)
  then show ?thesis
    by (simp add: issued_by_def)
qed

lemma list_all2_deleted:
  assumes "list_all2 (\<lambda>n c. node_deleted c = [n] \<and> node_modified c = []) ns cs"
  shows "concat (map node_deleted cs) = ns \<and> concat (map node_modified cs) = []"
  using assms by (induction rule: list_all2_induct) simp_all

text \<open>
  On a snapshot in which the search by name finds the pools of the partition, and in which
  the node names of the partition are distinct, a sweep that completes deletes exactly the
  nodes that no member of a pool of the partition refers to, and modifies exactly the nodes
  referred to that are not up or unchecked with an enabled session.
\<close>

theorem cleanup_nodes_unambiguous_lookup:
  assumes unamb: "lookup_unambiguous snap part"
    and dist: "distinct (names_in part (snap_nodes snap))"
    and ok: "fst (cleanup_nodes (snapshot_bigip snap) part s) = Inr u"
  shows "set (concat (map node_deleted (issued_by (cleanup_nodes (snapshot_bigip snap) part) s))) =
           set (names_in part (snap_nodes snap)) - node_name_of ` set (partition_members snap part) \<and>
         set (concat (map node_modified (issued_by (cleanup_nodes (snapshot_bigip snap) part) s))) =
           {x \<in> set (names_in part (snap_nodes snap)) \<inter>
                 node_name_of ` set (partition_members snap part). needs_enable snap part x}"
proof -
  let ?B = "snapshot_bigip snap"
  let ?nl = "names_in part (snap_nodes snap)"
  let ?pl = "names_in part (snap_pools snap)"
  let ?F = "\<lambda>pname node_list.
              and_then (get_pool_member_list ?B part pname) (\<lambda>member_list.
                fold_each member_list (cleanup_member ?B part) node_list)"
  let ?S = "fold_each ?pl ?F ?nl"
  let ?D = "\<lambda>node_list. for_each node_list (\<lambda>node. node_delete ?B node part)"
  have run: "cleanup_nodes ?B part s = and_then ?S ?D s"
    by (simp add: cleanup_nodes_def and_then_def [of "get_node_list ?B part"]
        and_then_def [of "get_pool_list ?B part"] snap_get_node_list snap_get_pool_list)
  then have iss0: "issued_by (cleanup_nodes ?B part) s = issued_by (and_then ?S ?D) s"
    by (simp add: issued_by_def)
  have extF: "extends (?F x acc)" for x acc
    by (rule extends_and_then, rule staged_extends [OF staged_get_pool_member_list],
        rule extends_fold_each, rule staged_extends [OF staged_cleanup_member])
  have extS: "extends ?S"
    using extF by (rule extends_fold_each)
  have extD: "extends (?D a)" for a
    by (rule extends_for_each, rule staged_extends [OF staged_node_delete])
  from ok run have ok1: "fst (and_then ?S ?D s) = Inr u"
    by simp
  from and_then_success [OF ok1] obtain nlF s1 where
    sw: "?S s = (Inr nlF, s1)" and rest: "and_then ?S ?D s = ?D nlF s1"
    by blast
  have iss: "issued_by (and_then ?S ?D) s = issued_by ?S s @ issued_by (?D nlF) s1"
    using extS extD sw by (rule issued_and_then)
  have "steps (\<lambda>pn. steps (sweep_step snap part) (found_members snap pn)) ?pl ?nl nlF (issued_by ?S s)"
  proof (rule fold_each_steps)
    show "extends (?F x acc)" for x acc
      by (rule extF)
    show "steps (sweep_step snap part) (found_members snap x) acc acc' (issued_by (?F x acc) s')"
      if "fst (?F x acc s') = Inr acc'" for x acc s' acc'
      using that by (rule pool_sweep_steps)
    show "fst (?S s) = Inr nlF"
      using sw by simp
  qed
  then have "steps (sweep_step snap part) (concat (map (found_members snap) ?pl)) ?nl nlF
      (issued_by ?S s)"
    by (rule steps_concat)
  then have st: "steps (sweep_step snap part) (partition_members snap part) ?nl nlF (issued_by ?S s)"
    using found_members_unambiguous [OF unamb] by simp
  from sweep_steps_facts [OF st dist]
  have f1: "set nlF = set ?nl - node_name_of ` set (partition_members snap part)"
    and f2: "set (concat (map node_modified (issued_by ?S s))) =
           {x \<in> set ?nl \<inter> node_name_of ` set (partition_members snap part).
              needs_enable snap part x}"
    and f3: "concat (map node_deleted (issued_by ?S s)) = []"
    by blast+
  have "list_all2 (\<lambda>n c. node_deleted c = [n] \<and> node_modified c = []) nlF
          (issued_by (?D nlF) s1)"
  proof (rule for_each_single)
    show "extends (node_delete ?B x part)" for x
      by (rule staged_extends [OF staged_node_delete])
    show "\<exists>c. issued_by (node_delete ?B x part) s' = [c] \<and>
              (node_deleted c = [x] \<and> node_modified c = [])"
      if "fst (node_delete ?B x part s') = Inr v" for x s' v
      using that by (rule node_delete_single)
    show "fst (?D nlF s1) = Inr u"
      using ok1 rest by simp
  qed
  from list_all2_deleted [OF this]
  have d1: "concat (map node_deleted (issued_by (?D nlF) s1)) = nlF"
    and d2: "concat (map node_modified (issued_by (?D nlF) s1)) = []"
    by blast+
  show ?thesis
    using iss0 iss f1 f2 f3 d1 d2 by simp
qed

text \<open>
  A partition with one pool: the disabled node in use is enabled, the node out of use is
  deleted.  The snapshot with two pools of one name is not covered by the result above.
\<close>

lemma one_partition_run:
  "lookup_unambiguous one_partition ''prod'' \<and>
   distinct (names_in ''prod'' (snap_nodes one_partition)) \<and>
   issued_by (cleanup_nodes (snapshot_bigip one_partition) ''prod'') ((), []) =
     [NodeModify \<lparr> o_name = ''10.0.0.1'', o_partition = ''prod'',
                    o_attrs = [(''state'', PStr ''user-down''),
                               (''session'', PStr ''user-disabled'')] \<rparr>
        [(''state'', PStr ''user-up''), (''session'', PStr ''user-enabled'')],
      NodeDelete \<lparr> o_name = ''10.0.0.7'', o_partition = ''prod'',
                    o_attrs = [(''state'', PStr ''unchecked''),
                               (''session'', PStr ''user-enabled'')] \<rparr>]"
  by code_simp

lemma same_name_pools_ambiguous:
  "\<not> lookup_unambiguous same_name_pools ''prod''"
  by code_simp

end
